theory Spec2Isabelle
  imports Main "HOL-Library.Char_ord" "HOL-Library.List_Lexorder"
begin

section \<open>Python values used by the generator\<close>

text \<open>
  The module \<^verbatim>\<open>woke/development/pytypes_generator.py\<close> is embedded function by
  function. Python strings are \<open>string\<close> (lists of characters with code points below
  256), Python integers are \<open>int\<close>, and every exception the embedded code can raise is a
  value of \<open>error\<close>, returned as \<open>Inl\<close>.
\<close>

datatype error =
    ValueError
  | IndexError
  | KeyError
  | AssertionError
  | NotImplementedError
  | AttributeError

text \<open>Sequencing of calls that may raise.\<close>

definition bind :: "error + 'a \<Rightarrow> ('a \<Rightarrow> error + 'b) \<Rightarrow> error + 'b" where
  "bind r f = (case r of Inl e \<Rightarrow> Inl e | Inr x \<Rightarrow> f x)"

subsection \<open>String methods\<close>

definition startswith :: "string \<Rightarrow> string \<Rightarrow> bool" where
  "startswith s p = (take (length p) s = p)"

definition endswith :: "string \<Rightarrow> string \<Rightarrow> bool" where
  "endswith s p = (length p \<le> length s \<and> drop (length s - length p) s = p)"

text \<open>\<^verbatim>\<open>s.split(sep)\<close> with an explicit one-character separator: every occurrence
  splits, so consecutive separators give empty pieces and the empty string gives one
  empty piece.\<close>

fun split :: "char \<Rightarrow> string \<Rightarrow> string list" where
  "split sep [] = [[]]"
| "split sep (c # cs) =
     (if c = sep then [] # split sep cs
      else (case split sep cs of
              [] \<Rightarrow> [[c]]
            | w # ws \<Rightarrow> (c # w) # ws))"

subsection \<open>The built-in \<^verbatim>\<open>int(text, base)\<close>\<close>

text \<open>
  \<^verbatim>\<open>int\<close> strips white space on both sides, reads an optional sign, for base 16
  an optional \<^verbatim>\<open>0x\<close> prefix (which one underscore may follow), and then a
  non-empty run of digits in which single underscores may separate digits. Anything
  else raises \<^verbatim>\<open>ValueError\<close>. The white space \<^verbatim>\<open>int\<close> strips is the ASCII
  white space (code points 9 to 13 and 32) and, of the code points below 256, the two
  other Unicode spaces 133 and 160; the separators 28 to 31 are not stripped and make
  the text invalid. The interpreter's optional limit on the number of decimal digits
  is not part of the model.
\<close>

definition isspace :: "char \<Rightarrow> bool" where
  "isspace c =
     (let n = of_char c :: nat
      in (9 \<le> n \<and> n \<le> 13) \<or> n = 32 \<or> n = 133 \<or> n = 160)"

definition strip :: "string \<Rightarrow> string" where
  "strip s = rev (dropWhile isspace (rev (dropWhile isspace s)))"

definition digit_value :: "char \<Rightarrow> nat option" where
  "digit_value c =
     (let n = of_char c :: nat
      in if 48 \<le> n \<and> n \<le> 57 then Some (n - 48)
         else if 97 \<le> n \<and> n \<le> 122 then Some (n - 87)
         else if 65 \<le> n \<and> n \<le> 90 then Some (n - 55)
         else None)"

fun digits_value :: "nat \<Rightarrow> nat \<Rightarrow> bool \<Rightarrow> string \<Rightarrow> nat option" where
  "digits_value base acc prev_underscore [] =
     (if prev_underscore then None else Some acc)"
| "digits_value base acc prev_underscore (c # cs) =
     (if c = CHR ''_'' then
        (if prev_underscore then None else digits_value base acc True cs)
      else (case digit_value c of
              None \<Rightarrow> None
            | Some d \<Rightarrow>
                if d < base then digits_value base (acc * base + d) False cs
                else None))"

definition py_int :: "nat \<Rightarrow> string \<Rightarrow> error + int" where
  "py_int base text =
     (let s = strip text;
          negative = (s \<noteq> [] \<and> hd s = CHR ''-'');
          s = (if s \<noteq> [] \<and> (hd s = CHR ''+'' \<or> hd s = CHR ''-'') then tl s else s);
          s = (if base = 16 \<and> (startswith s ''0x'' \<or> startswith s ''0X'')
               then (let r = drop 2 s
                     in if r \<noteq> [] \<and> hd r = CHR ''_'' then tl r else r)
               else s)
      in if s = [] \<or> hd s = CHR ''_'' then Inl ValueError
         else (case digits_value base 0 False s of
                 None \<Rightarrow> Inl ValueError
               | Some n \<Rightarrow> Inr (if negative then - int n else int n)))"

section \<open>Bytecode decoder: \<^verbatim>\<open>_parse_opcodes\<close>\<close>

text \<open>An entry of the instruction table: program counter, opcode, size in bytes and
  the literal operand of a push.\<close>

type_synonym instruction = "int \<times> string \<times> int \<times> int option"

text \<open>
  The loop over \<^verbatim>\<open>enumerate(opcodes_spl)\<close>. The remaining tokens are the
  argument, so \<^verbatim>\<open>opcodes_spl[i + 1]\<close> is the head of the rest and raises
  \<^verbatim>\<open>IndexError\<close> when the push is the last token.
\<close>

fun parse_tokens ::
  "string list \<Rightarrow> int \<Rightarrow> bool \<Rightarrow> instruction list \<Rightarrow> error + instruction list" where
  "parse_tokens [] pc ignore pc_op_map = Inr pc_op_map"
| "parse_tokens (opcode # rest) pc ignore pc_op_map =
     (if ignore then parse_tokens rest pc False pc_op_map
      else if \<not> startswith opcode ''PUSH'' then
        parse_tokens rest (pc + 1) False (pc_op_map @ [(pc, opcode, 1, None)])
      else (case py_int 10 (drop 4 opcode) of
              Inl e \<Rightarrow> Inl e
            | Inr n \<Rightarrow>
                (let size = n + 1
                 in (case rest of
                       [] \<Rightarrow> Inl IndexError
                     | operand # _ \<Rightarrow>
                         (case py_int 16 operand of
                            Inl e \<Rightarrow> Inl e
                          | Inr a \<Rightarrow>
                              parse_tokens rest (pc + size) True
                                (pc_op_map @ [(pc, opcode, size, Some a)]))))))"

definition parse_opcodes :: "string \<Rightarrow> error + instruction list" where
  "parse_opcodes opcodes = parse_tokens (split CHR '' '' opcodes) 0 False []"

text \<open>The program counters a table should have when they accumulate from a start
  value by the sizes of the entries.\<close>

fun accumulated :: "int \<Rightarrow> instruction list \<Rightarrow> bool" where
  "accumulated pc [] = True"
| "accumulated pc ((pc', opcode, sz, operand) # rest) =
     (pc' = pc \<and> accumulated (pc + sz) rest)"

text \<open>The size rule for one entry: a push of declared size \<open>n\<close> has size \<open>n + 1\<close>
  and carries an operand, any other opcode has size 1 and none.\<close>

fun sized :: "instruction \<Rightarrow> bool" where
  "sized (pc, opcode, sz, operand) =
     (if startswith opcode ''PUSH''
      then py_int 10 (drop 4 opcode) = Inr (sz - 1) \<and> operand \<noteq> None
      else sz = 1 \<and> operand = None)"

definition pushes :: "instruction list \<Rightarrow> nat" where
  "pushes tbl = length (filter (\<lambda>(pc, opcode, sz, operand). operand \<noteq> None) tbl)"

section \<open>Identifier sanitizer: class \<^verbatim>\<open>NameSanitizer\<close>\<close>

subsection \<open>Declarations and their structural parents\<close>

text \<open>
  \<^verbatim>\<open>sanitize_name\<close> reads two attributes of a declaration, its \<^verbatim>\<open>name\<close> and its
  \<^verbatim>\<open>parent\<close>, and uses the declaration object itself as a dictionary key. A node of
  the syntax tree is an object with an identity; the identity is a number here. A
  source unit carries its \<^verbatim>\<open>source_unit_name\<close>, and a contract definition its name
  and the source unit name of its own parent, because the generator asks for both.
\<close>

datatype owner =
    FunctionDefinition nat
  | EventDefinition nat
  | ErrorDefinition nat
  | OtherOwner nat

datatype node =
    SourceUnit string
  | ContractDefinition nat string string
  | StructDefinition nat
  | EnumDefinition nat
  | ParameterList owner
  | OtherNode nat

record declaration_abc =
  uid :: nat
  name :: string
  parent :: node

text \<open>The seven rename tables are selected by the scope of a declaration.\<close>

datatype scope =
    Global
  | Contract node
  | Struct node
  | Enum node
  | Function owner
  | Event owner
  | Error owner

subsection \<open>\<^verbatim>\<open>str\<close> of a non-negative integer\<close>

definition digit_char :: "nat \<Rightarrow> char" where
  "digit_char d = ''0123456789'' ! d"

fun str_nat :: "nat \<Rightarrow> string" where
  "str_nat n =
     (if n < 10 then [digit_char n] else str_nat (n div 10) @ [digit_char (n mod 10)])"

subsection \<open>Reserved identifiers\<close>

text \<open>The sets built by \<^verbatim>\<open>__init__\<close>; only membership is ever asked, so each is
  the list of its elements.\<close>

definition global_reserved :: "string list" where
  "global_reserved =
     [''Dict'', ''List'', ''Mapping'', ''Set'', ''Tuple'', ''Union'', ''Annotated'',
      ''Optional'', ''Literal'', ''Callable'', ''Path'', ''bytearray'', ''IntEnum'',
      ''dataclasses'', ''overload'', ''Contract'', ''Library'', ''Address'', ''Account'',
      ''Chain'', ''RequestType'', ''TransactionRevertedError'', ''TransactionAbc'',
      ''LegacyTransaction'', ''Eip2930Transaction'', ''Eip1559Transaction'',
      ''ValueRange'', ''Length'', ''bytes'', ''int'', ''uint'', ''str'', ''bool'']
     @ concat (map (\<lambda>k. [''uint'' @ str_nat (8 * k), ''int'' @ str_nat (8 * k)]) [1..<33])
     @ concat (map (\<lambda>i. [''bytes'' @ str_nat i, ''List'' @ str_nat i]) [1..<33])"

definition contract_reserved :: "string list" where
  "contract_reserved =
     [''_abi'', ''_deployment_code'', ''_address'', ''_chain'', ''_label'',
      ''_get_deployment_code'', ''_deploy'', ''_execute'', ''_library_id'',
      ''_prepare_tx_params'', ''address'', ''label'', ''balance'', ''code'', ''chain'',
      ''nonce'', ''call'', ''transact'', ''estimate'', ''deploy'', ''deployment_code'']"

definition function_reserved :: "string list" where
  "function_reserved =
     [''self'', ''cls'', ''from_'', ''value'', ''gas_limit'', ''return_tx'', ''chain'',
      ''to'', ''request_type'', ''gas_price'', ''max_fee_per_gas'',
      ''max_priority_fee_per_gas'', ''access_list'', ''block'', ''confirmations'']"

definition struct_reserved :: "string list" where
  "struct_reserved = [''original_name'']"

definition event_reserved :: "string list" where
  "event_reserved = [''_abi'', ''selector'', ''original_name'']"

definition error_reserved :: "string list" where
  "error_reserved = [''_abi'', ''selector'', ''original_name'']"

definition enum_reserved :: "string list" where
  "enum_reserved = []"

text \<open>\<^verbatim>\<open>keyword.iskeyword\<close> of the standard library: membership in
  \<^verbatim>\<open>keyword.kwlist\<close> (Python 3.7 and later).\<close>

definition kwlist :: "string list" where
  "kwlist =
     [''False'', ''None'', ''True'', ''and'', ''as'', ''assert'', ''async'', ''await'',
      ''break'', ''class'', ''continue'', ''def'', ''del'', ''elif'', ''else'', ''except'',
      ''finally'', ''for'', ''from'', ''global'', ''if'', ''import'', ''in'', ''is'',
      ''lambda'', ''nonlocal'', ''not'', ''or'', ''pass'', ''raise'', ''return'', ''try'',
      ''while'', ''with'', ''yield'']"

definition iskeyword :: "string \<Rightarrow> bool" where
  "iskeyword s = (s \<in> set kwlist)"

subsection \<open>The sanitizer's state\<close>

text \<open>A rename table is a dictionary from declarations to chosen identifiers, in
  insertion order. The six scoped tables are \<^verbatim>\<open>defaultdict(dict)\<close>: a key never
  stored has the empty table.\<close>

type_synonym renames = "(declaration_abc \<times> string) list"

record name_sanitizer =
  global_renames :: renames
  contract_renames :: "node \<Rightarrow> renames"
  function_renames :: "owner \<Rightarrow> renames"
  struct_renames :: "node \<Rightarrow> renames"
  event_renames :: "owner \<Rightarrow> renames"
  error_renames :: "owner \<Rightarrow> renames"
  enum_renames :: "node \<Rightarrow> renames"

definition NameSanitizer :: name_sanitizer where
  "NameSanitizer =
     \<lparr>global_renames = [],
      contract_renames = (\<lambda>_. []),
      function_renames = (\<lambda>_. []),
      struct_renames = (\<lambda>_. []),
      event_renames = (\<lambda>_. []),
      error_renames = (\<lambda>_. []),
      enum_renames = (\<lambda>_. [])\<rparr>"

definition chosen :: "renames \<Rightarrow> string set" where
  "chosen table = set (map snd table)"

subsection \<open>The collision checks\<close>

text \<open>
  In the six scoped checks the source writes \<^verbatim>\<open>name in set(self.__global_renames)\<close>.
  Iterating a dictionary gives its keys, so this is a set of declaration objects, and
  the test compares the string with each of them. \<open>pyobj\<close> is the universe that
  comparison lives in: a declaration is an object that compares by identity, so it is
  never equal to a string. Only \<^verbatim>\<open>_check_global\<close> takes \<^verbatim>\<open>.values()\<close>.
\<close>

datatype pyobj = Str string | Decl declaration_abc

definition keys_as_set :: "renames \<Rightarrow> pyobj set" where
  "keys_as_set table = set (map (\<lambda>entry. Decl (fst entry)) table)"

definition dunder :: "string \<Rightarrow> bool" where
  "dunder nm = (startswith nm ''__'' \<and> endswith nm ''__'' \<and> \<not> endswith nm ''___'')"

definition check_global :: "name_sanitizer \<Rightarrow> string \<Rightarrow> bool" where
  "check_global self nm =
     (nm \<in> set global_reserved
      \<or> nm \<in> chosen (global_renames self)
      \<or> iskeyword nm)"

definition check_contract :: "name_sanitizer \<Rightarrow> string \<Rightarrow> node \<Rightarrow> bool" where
  "check_contract self nm contract =
     (nm \<in> set global_reserved
      \<or> Str nm \<in> keys_as_set (global_renames self)
      \<or> nm \<in> set contract_reserved
      \<or> nm \<in> chosen (contract_renames self contract)
      \<or> iskeyword nm
      \<or> dunder nm)"

definition check_function :: "name_sanitizer \<Rightarrow> string \<Rightarrow> owner \<Rightarrow> bool" where
  "check_function self nm fn =
     (nm \<in> set global_reserved
      \<or> Str nm \<in> keys_as_set (global_renames self)
      \<or> nm \<in> set function_reserved
      \<or> nm \<in> chosen (function_renames self fn)
      \<or> iskeyword nm)"

definition check_struct :: "name_sanitizer \<Rightarrow> string \<Rightarrow> node \<Rightarrow> bool" where
  "check_struct self nm struct =
     (nm \<in> set global_reserved
      \<or> Str nm \<in> keys_as_set (global_renames self)
      \<or> nm \<in> set struct_reserved
      \<or> nm \<in> chosen (struct_renames self struct)
      \<or> iskeyword nm
      \<or> dunder nm)"

definition check_event :: "name_sanitizer \<Rightarrow> string \<Rightarrow> owner \<Rightarrow> bool" where
  "check_event self nm event =
     (nm \<in> set global_reserved
      \<or> Str nm \<in> keys_as_set (global_renames self)
      \<or> nm \<in> set event_reserved
      \<or> nm \<in> chosen (event_renames self event)
      \<or> iskeyword nm
      \<or> dunder nm)"

definition check_error :: "name_sanitizer \<Rightarrow> string \<Rightarrow> owner \<Rightarrow> bool" where
  "check_error self nm err =
     (nm \<in> set global_reserved
      \<or> Str nm \<in> keys_as_set (global_renames self)
      \<or> nm \<in> set error_reserved
      \<or> nm \<in> chosen (error_renames self err)
      \<or> iskeyword nm
      \<or> dunder nm)"

definition check_enum :: "name_sanitizer \<Rightarrow> string \<Rightarrow> node \<Rightarrow> bool" where
  "check_enum self nm enum =
     (nm \<in> set global_reserved
      \<or> Str nm \<in> keys_as_set (global_renames self)
      \<or> nm \<in> set enum_reserved
      \<or> nm \<in> chosen (enum_renames self enum)
      \<or> iskeyword nm
      \<or> dunder nm)"

definition clear_global_renames :: "name_sanitizer \<Rightarrow> name_sanitizer" where
  "clear_global_renames self = self\<lparr>global_renames := []\<rparr>"

subsection \<open>\<^verbatim>\<open>sanitize_name\<close>\<close>

text \<open>The \<^verbatim>\<open>isinstance\<close> chain on the parent picks the check and the table; a
  parent outside the chain raises \<^verbatim>\<open>NotImplementedError\<close>.\<close>

definition scope_of :: "declaration_abc \<Rightarrow> error + scope" where
  "scope_of decl =
     (case parent decl of
        SourceUnit _ \<Rightarrow> Inr Global
      | ContractDefinition _ _ _ \<Rightarrow> Inr (Contract (parent decl))
      | StructDefinition _ \<Rightarrow> Inr (Struct (parent decl))
      | EnumDefinition _ \<Rightarrow> Inr (Enum (parent decl))
      | ParameterList parent_parent \<Rightarrow>
          (case parent_parent of
             FunctionDefinition _ \<Rightarrow> Inr (Function parent_parent)
           | EventDefinition _ \<Rightarrow> Inr (Event parent_parent)
           | ErrorDefinition _ \<Rightarrow> Inr (Error parent_parent)
           | OtherOwner _ \<Rightarrow> Inl NotImplementedError)
      | OtherNode _ \<Rightarrow> Inl NotImplementedError)"

fun check :: "name_sanitizer \<Rightarrow> scope \<Rightarrow> string \<Rightarrow> bool" where
  "check self Global nm = check_global self nm"
| "check self (Contract c) nm = check_contract self nm c"
| "check self (Struct s) nm = check_struct self nm s"
| "check self (Enum e) nm = check_enum self nm e"
| "check self (Function f) nm = check_function self nm f"
| "check self (Event e) nm = check_event self nm e"
| "check self (Error e) nm = check_error self nm e"

fun renames :: "name_sanitizer \<Rightarrow> scope \<Rightarrow> renames" where
  "renames self Global = global_renames self"
| "renames self (Contract c) = contract_renames self c"
| "renames self (Struct s) = struct_renames self s"
| "renames self (Enum e) = enum_renames self e"
| "renames self (Function f) = function_renames self f"
| "renames self (Event e) = event_renames self e"
| "renames self (Error e) = error_renames self e"

fun store :: "name_sanitizer \<Rightarrow> scope \<Rightarrow> renames \<Rightarrow> name_sanitizer" where
  "store self Global t = self\<lparr>global_renames := t\<rparr>"
| "store self (Contract c) t = self\<lparr>contract_renames := (contract_renames self)(c := t)\<rparr>"
| "store self (Struct s) t = self\<lparr>struct_renames := (struct_renames self)(s := t)\<rparr>"
| "store self (Enum e) t = self\<lparr>enum_renames := (enum_renames self)(e := t)\<rparr>"
| "store self (Function f) t = self\<lparr>function_renames := (function_renames self)(f := t)\<rparr>"
| "store self (Event e) t = self\<lparr>event_renames := (event_renames self)(e := t)\<rparr>"
| "store self (Error e) t = self\<lparr>error_renames := (error_renames self)(e := t)\<rparr>"

text \<open>Every name a check can reject is either in this finite list or a dunder name;
  the loop below terminates for that reason.\<close>

fun scope_reserved :: "scope \<Rightarrow> string list" where
  "scope_reserved Global = []"
| "scope_reserved (Contract c) = contract_reserved"
| "scope_reserved (Struct s) = struct_reserved"
| "scope_reserved (Enum e) = enum_reserved"
| "scope_reserved (Function f) = function_reserved"
| "scope_reserved (Event e) = event_reserved"
| "scope_reserved (Error e) = error_reserved"

definition blocked :: "name_sanitizer \<Rightarrow> scope \<Rightarrow> string list" where
  "blocked self sc =
     global_reserved @ kwlist @ scope_reserved sc @ map snd (renames self sc)"

text \<open>\<^verbatim>\<open>while check(new_name): new_name = new_name + "_"\<close>\<close>

function new_name_loop :: "name_sanitizer \<Rightarrow> scope \<Rightarrow> string \<Rightarrow> string" where
  "new_name_loop self sc new_name =
     (if check self sc new_name then new_name_loop self sc (new_name @ ''_'')
      else new_name)"
  by pat_completeness auto
termination
proof (relation "measure (\<lambda>(self, sc, nm).
         2 * (Suc (sum_list (map length (blocked self sc))) - length nm)
         + (if dunder nm then 1 else 0))")
  show "wf (measure (\<lambda>(self, sc, nm).
         2 * (Suc (sum_list (map length (blocked self sc))) - length nm)
         + (if dunder nm then 1 else 0)))"
    by simp
next
  fix self :: name_sanitizer and sc :: scope and new_name :: string
  assume c: "check self sc new_name"
  have str_not_decl: "\<And>t. Str new_name \<notin> keys_as_set t"
    by (auto simp: keys_as_set_def)
  have cases: "new_name \<in> set (blocked self sc) \<or> dunder new_name"
    using c str_not_decl
    by (cases sc)
       (auto simp: blocked_def check_global_def check_contract_def check_struct_def
          check_enum_def check_function_def check_event_def check_error_def
          iskeyword_def chosen_def)
  have step: "dunder new_name \<Longrightarrow> \<not> dunder (new_name @ ''_'')"
  proof -
    assume d: "dunder new_name"
    then have "endswith new_name ''__''" by (simp add: dunder_def)
    then have "endswith (new_name @ ''_'') ''___''"
      by (auto simp: endswith_def Suc_diff_le numeral_2_eq_2 numeral_3_eq_3)
    then show ?thesis by (simp add: dunder_def)
  qed
  have bound: "new_name \<in> set (blocked self sc) \<Longrightarrow>
      length new_name \<le> sum_list (map length (blocked self sc))"
    by (simp add: member_le_sum_list)
  show "((self, sc, new_name @ ''_''), (self, sc, new_name))
        \<in> measure (\<lambda>(self, sc, nm).
            2 * (Suc (sum_list (map length (blocked self sc))) - length nm)
            + (if dunder nm then 1 else 0))"
  proof (cases "new_name \<in> set (blocked self sc)")
    case True
    with bound show ?thesis by auto
  next
    case False
    with cases have "dunder new_name" by simp
    with step show ?thesis by auto
  qed
qed

definition sanitize_name ::
  "name_sanitizer \<Rightarrow> declaration_abc \<Rightarrow> error + (string \<times> name_sanitizer)" where
  "sanitize_name self decl =
     (case scope_of decl of
        Inl e \<Rightarrow> Inl e
      | Inr sc \<Rightarrow>
          (case map_of (renames self sc) decl of
             Some cached \<Rightarrow> Inr (cached, self)
           | None \<Rightarrow>
               (let new_name = new_name_loop self sc (name decl)
                in Inr (new_name,
                        store self sc (renames self sc @ [(decl, new_name)])))))"

text \<open>
  The calls a generation run makes on the sanitizer: \<^verbatim>\<open>get_name\<close> forwards to
  \<^verbatim>\<open>sanitize_name\<close>, and \<^verbatim>\<open>generate_source_unit\<close> ends each compilation unit with
  \<^verbatim>\<open>clear_global_renames\<close>, which returns \<^verbatim>\<open>None\<close>. \<open>calls\<close> gives what each
  call returned, in order.
\<close>

datatype request = Sanitize declaration_abc | ClearGlobalRenames

fun calls :: "name_sanitizer \<Rightarrow> request list \<Rightarrow> error + string option list" where
  "calls self [] = Inr []"
| "calls self (Sanitize decl # rest) =
     (case sanitize_name self decl of
        Inl e \<Rightarrow> Inl e
      | Inr (identifier, self') \<Rightarrow>
          (case calls self' rest of
             Inl e \<Rightarrow> Inl e
           | Inr outs \<Rightarrow> Inr (Some identifier # outs)))"
| "calls self (ClearGlobalRenames # rest) =
     (case calls (clear_global_renames self) rest of
        Inl e \<Rightarrow> Inl e
      | Inr outs \<Rightarrow> Inr (None # outs))"

subsection \<open>Invariants of the rename tables\<close>

text \<open>No table gives one identifier to two declarations.\<close>

definition unique_names :: "name_sanitizer \<Rightarrow> bool" where
  "unique_names self = (\<forall>sc. distinct (map snd (renames self sc)))"

text \<open>The scopes whose check has the dunder clause: all but the global and the
  function scope.\<close>

fun class_scope :: "scope \<Rightarrow> bool" where
  "class_scope Global = False"
| "class_scope (Function f) = False"
| "class_scope sc = True"

definition no_dunder :: "name_sanitizer \<Rightarrow> bool" where
  "no_dunder self =
     (\<forall>sc. class_scope sc \<longrightarrow> (\<forall>nm \<in> chosen (renames self sc). \<not> dunder nm))"

section \<open>Source maps: \<^verbatim>\<open>_parse_source_map\<close>\<close>

text \<open>
  \<^verbatim>\<open>last_data\<close> is a list of five values, three integers and two optional strings.
  An assignment to an index beyond the fifth raises \<^verbatim>\<open>IndexError\<close>.
\<close>

type_synonym last_data = "int \<times> int \<times> int \<times> string option \<times> string option"

type_synonym pc_map = "int \<rightharpoonup> (int \<times> int \<times> int \<times> string option)"

fun set_number :: "nat \<Rightarrow> int \<Rightarrow> last_data \<Rightarrow> last_data" where
  "set_number x v (a, b, c, d, e) =
     (if x = 0 then (v, b, c, d, e) else if x = 1 then (a, v, c, d, e) else (a, b, v, d, e))"

fun set_text :: "nat \<Rightarrow> string \<Rightarrow> last_data \<Rightarrow> last_data" where
  "set_text x v (a, b, c, d, e) = (if x = 3 then (a, b, c, Some v, e) else (a, b, c, d, Some v))"

text \<open>\<^verbatim>\<open>for x in range(len(source_spl))\<close>\<close>

fun source_fields :: "nat \<Rightarrow> string list \<Rightarrow> last_data \<Rightarrow> error + last_data" where
  "source_fields x [] last_seen = Inr last_seen"
| "source_fields x (item # others) last_seen =
     (if item = [] then source_fields (Suc x) others last_seen
      else if x < 3 then
        (case py_int 10 item of
           Inl e \<Rightarrow> Inl e
         | Inr v \<Rightarrow> source_fields (Suc x) others (set_number x v last_seen))
      else if x < 5 then source_fields (Suc x) others (set_text x item last_seen)
      else Inl IndexError)"

text \<open>\<^verbatim>\<open>for i, sm_item in enumerate(source_map.split(";"))\<close>: the \<open>i\<close>-th item goes with
  the \<open>i\<close>-th instruction, and an item without an instruction raises
  \<^verbatim>\<open>IndexError\<close>.\<close>

fun source_items ::
  "string list \<Rightarrow> instruction list \<Rightarrow> last_data \<Rightarrow> pc_map \<Rightarrow> error + pc_map" where
  "source_items [] pc_op_map last_seen pc_map = Inr pc_map"
| "source_items (sm_item # items) [] last_seen pc_map = Inl IndexError"
| "source_items (sm_item # items) ((pc, op, sz, argument) # pc_op_map) last_seen pc_map =
     (case source_fields 0 (split CHR '':'' sm_item) last_seen of
        Inl e \<Rightarrow> Inl e
      | Inr (start, len, file_id, jump, modifier_depth) \<Rightarrow>
          source_items items pc_op_map (start, len, file_id, jump, modifier_depth)
            (pc_map(pc \<mapsto> (start, start + len, file_id, jump))))"

definition parse_source_map :: "string \<Rightarrow> instruction list \<Rightarrow> error + pc_map" where
  "parse_source_map source_map pc_op_map =
     source_items (split CHR '';'' source_map) pc_op_map (- 1, - 1, - 1, None, None) Map.empty"

section \<open>Contract template: revert sites and metadata\<close>

subsection \<open>Collaborators of the revert scan\<close>

text \<open>
  What the scan asks of a node found in an interval tree: its depth, whether it is a
  \<^verbatim>\<open>FunctionCall\<close>, whether its parent is a \<^verbatim>\<open>RevertStatement\<close>, and whether the
  function it calls is an \<^verbatim>\<open>ErrorDefinition\<close>.
\<close>

record ir_node =
  ast_tree_depth :: int
  is_function_call :: bool
  parent_is_revert_statement :: bool
  function_called_is_error_definition :: bool

text \<open>
  The reference resolver and the interval trees belong to the compiler front end. The
  resolver gives the path of a file id within a compilation unit, or raises
  \<^verbatim>\<open>KeyError\<close> (\<open>None\<close>); a tree gives, for a byte range, the nodes of the intervals
  the range envelops, in the order the set of intervals is iterated.
\<close>

record front_end =
  resolve_source_file_id :: "int \<Rightarrow> string \<Rightarrow> string option"
  interval_trees :: "string \<rightharpoonup> (int \<Rightarrow> int \<Rightarrow> ir_node list)"

type_synonym revert_index = "string \<rightharpoonup> int set"

subsection \<open>The loop over the parsed opcodes (lines 391 to 419)\<close>

definition revert_site ::
  "front_end \<Rightarrow> string \<Rightarrow> string \<Rightarrow> pc_map \<Rightarrow> instruction \<Rightarrow> revert_index
     \<Rightarrow> error + revert_index" where
  "revert_site env cu_hash fqn pc_map instr contracts_revert_index =
     (case instr of (pc, op, sz, argument) \<Rightarrow>
        (case (if op = ''REVERT'' then pc_map pc else None) of
           None \<Rightarrow> Inr contracts_revert_index
         | Some (start, stop, file_id, jump) \<Rightarrow>
             if file_id = - 1 then Inr contracts_revert_index
             else (case resolve_source_file_id env file_id cu_hash of
                     None \<Rightarrow> Inr contracts_revert_index
                   | Some path \<Rightarrow>
                       (case interval_trees env path of
                          None \<Rightarrow> Inl KeyError
                        | Some envelop \<Rightarrow>
                            (case sort_key ast_tree_depth (envelop start stop) of
                               [] \<Rightarrow> Inr contracts_revert_index
                             | node # _ \<Rightarrow>
                                 if is_function_call node \<and> parent_is_revert_statement node
                                 then
                                   (if \<not> function_called_is_error_definition node
                                    then Inl AssertionError
                                    else Inr (contracts_revert_index(fqn \<mapsto>
                                           insert pc
                                             (case contracts_revert_index fqn of
                                                None \<Rightarrow> {}
                                              | Some pcs \<Rightarrow> pcs))))
                                 else Inr contracts_revert_index)))))"

fun revert_sites ::
  "front_end \<Rightarrow> string \<Rightarrow> string \<Rightarrow> pc_map \<Rightarrow> instruction list \<Rightarrow> revert_index
     \<Rightarrow> error + revert_index" where
  "revert_sites env cu_hash fqn pc_map [] contracts_revert_index = Inr contracts_revert_index"
| "revert_sites env cu_hash fqn pc_map (instr # rest) contracts_revert_index =
     (case revert_site env cu_hash fqn pc_map instr contracts_revert_index of
        Inl e \<Rightarrow> Inl e
      | Inr index \<Rightarrow> revert_sites env cu_hash fqn pc_map rest index)"

text \<open>Decoding and scanning together, as \<^verbatim>\<open>generate_contract_template\<close> does from
  the disassembly and the source map of the deployed bytecode.\<close>

definition contract_reverts ::
  "front_end \<Rightarrow> string \<Rightarrow> string \<Rightarrow> string \<Rightarrow> string \<Rightarrow> revert_index
     \<Rightarrow> error + revert_index" where
  "contract_reverts env cu_hash fqn opcodes source_map contracts_revert_index =
     (case parse_opcodes opcodes of
        Inl e \<Rightarrow> Inl e
      | Inr parsed_opcodes \<Rightarrow>
          (case parse_source_map source_map parsed_opcodes of
             Inl e \<Rightarrow> Inl e
           | Inr pc_map \<Rightarrow>
               revert_sites env cu_hash fqn pc_map parsed_opcodes contracts_revert_index))"

subsection \<open>The metadata trailer (lines 421 to 427)\<close>

text \<open>
  \<^verbatim>\<open>bytes.fromhex\<close>: ASCII white space between bytes is skipped, every byte is two
  hexadecimal digits, anything else raises \<^verbatim>\<open>ValueError\<close>. A byte is a number
  below 256.
\<close>

definition ascii_space :: "char \<Rightarrow> bool" where
  "ascii_space c = (let n = of_char c :: nat in (9 \<le> n \<and> n \<le> 13) \<or> n = 32)"

definition hex_digit :: "char \<Rightarrow> nat option" where
  "hex_digit c = (case digit_value c of
                    None \<Rightarrow> None
                  | Some d \<Rightarrow> if d < 16 then Some d else None)"

fun fromhex :: "string \<Rightarrow> error + nat list" where
  "fromhex [] = Inr []"
| "fromhex [c] = (if ascii_space c then Inr [] else Inl ValueError)"
| "fromhex (c # d # rest) =
     (if ascii_space c then fromhex (d # rest)
      else (case (hex_digit c, hex_digit d) of
              (Some hi, Some lo) \<Rightarrow>
                (case fromhex rest of
                   Inl e \<Rightarrow> Inl e
                 | Inr bs \<Rightarrow> Inr ((hi * 16 + lo) # bs))
            | _ \<Rightarrow> Inl ValueError))"

text \<open>\<^verbatim>\<open>object[-106:]\<close>: the last 106 characters, or all of them when there are
  fewer.\<close>

definition trailer :: "string \<Rightarrow> string" where
  "trailer object = drop (length object - 106) object"

type_synonym metadata_index = "nat list \<rightharpoonup> string"

definition contract_metadata ::
  "string \<Rightarrow> string \<Rightarrow> metadata_index \<Rightarrow> error + metadata_index" where
  "contract_metadata object fqn contracts_by_metadata_index =
     (if length object > 0 then
        (case fromhex (trailer object) of
           Inl e \<Rightarrow> Inl e
         | Inr metadata \<Rightarrow>
             if length metadata \<noteq> 53 then Inl AssertionError
             else if contracts_by_metadata_index metadata \<noteq> None then Inl AssertionError
             else Inr (contracts_by_metadata_index(metadata \<mapsto> fqn)))
      else Inr contracts_by_metadata_index)"

text \<open>The contracts of a run, each with its deployed bytecode and its fully-qualified
  name, pass through \<^verbatim>\<open>generate_contract_template\<close> one after the other; the first
  exception ends the run.\<close>

fun metadata_run :: "(string \<times> string) list \<Rightarrow> metadata_index \<Rightarrow> error + metadata_index" where
  "metadata_run [] index = Inr index"
| "metadata_run ((object, fqn) # contracts) index =
     (case contract_metadata object fqn index of
        Inl e \<Rightarrow> Inl e
      | Inr index' \<Rightarrow> metadata_run contracts index')"

section \<open>Type mapper: \<^verbatim>\<open>parse_type_and_import\<close>\<close>

subsection \<open>Type descriptors\<close>

text \<open>
  The classes of \<^verbatim>\<open>woke.ast.types\<close> the generator distinguishes. A struct, enum or
  contract type carries its \<^verbatim>\<open>ir_node\<close>, the declaration; a user-defined value type
  carries the type of its underlying type name; \<open>OtherType\<close> is any class that is
  neither handled by an \<^verbatim>\<open>isinstance\<close> branch nor a key of the lookup table, given
  by its class name.
\<close>

datatype type_abc =
    Address
  | String
  | Bool
  | Bytes
  | FunctionType
  | StructType declaration_abc
  | EnumType declaration_abc
  | UserDefinedValueType type_abc
  | Array type_abc "int option"
  | ContractType declaration_abc
  | FixedBytes int
  | IntType int
  | UIntType int
  | Mapping type_abc type_abc
  | OtherType string

text \<open>\<^verbatim>\<open>__sol_to_py_lookup\<close>, indexed by class name: the parameter type and the
  return type. A missing key raises \<^verbatim>\<open>KeyError\<close>.\<close>

fun sol_to_py_lookup :: "type_abc \<Rightarrow> error + (string \<times> string)" where
  "sol_to_py_lookup Address = Inr (''Union[Account, Address]'', ''Address'')"
| "sol_to_py_lookup String = Inr (''str'', ''str'')"
| "sol_to_py_lookup Bool = Inr (''bool'', ''bool'')"
| "sol_to_py_lookup Bytes = Inr (''Union[bytearray, bytes]'', ''bytearray'')"
| "sol_to_py_lookup FunctionType = Inr (''Callable'', ''Callable'')"
| "sol_to_py_lookup other = Inl KeyError"

definition str_int :: "int \<Rightarrow> string" where
  "str_int i = (if i < 0 then ''-'' @ str_nat (nat (- i)) else str_nat (nat i))"

subsection \<open>The generator's state\<close>

text \<open>
  Of the \<^verbatim>\<open>TypeGenerator\<close> object, the type mapper touches the name sanitizer, the
  import sets of the \<^verbatim>\<open>SourceUnitImports\<close> object and the name of the source unit
  being generated.
\<close>

record type_generator =
  sanitizer :: name_sanitizer
  struct_imports :: "string set"
  enum_imports :: "string set"
  contract_imports :: "string set"
  current_source_unit :: string

definition get_name :: "type_generator \<Rightarrow> declaration_abc \<Rightarrow> error + (string \<times> type_generator)" where
  "get_name g decl =
     bind (sanitize_name (sanitizer g) decl) (\<lambda>(nm, s). Inr (nm, g\<lparr>sanitizer := s\<rparr>))"

subsection \<open>\<^verbatim>\<open>_make_path_alphanum\<close> and the import statements\<close>

text \<open>\<^verbatim>\<open>str.isalnum\<close> on one character, for code points below 256.\<close>

definition isalnum :: "char \<Rightarrow> bool" where
  "isalnum c =
     (let n = of_char c :: nat
      in (48 \<le> n \<and> n \<le> 57) \<or> (65 \<le> n \<and> n \<le> 90) \<or> (97 \<le> n \<and> n \<le> 122)
         \<or> n \<in> {170, 178, 179, 181, 185, 186, 188, 189, 190}
         \<or> (192 \<le> n \<and> n \<le> 214) \<or> (216 \<le> n \<and> n \<le> 246) \<or> (248 \<le> n \<and> n \<le> 255))"

fun join :: "string \<Rightarrow> string list \<Rightarrow> string" where
  "join sep [] = []"
| "join sep [s] = s"
| "join sep (s # t # rest) = s @ sep @ join sep (t # rest)"

definition make_path_alphanum :: "string \<Rightarrow> string" where
  "make_path_alphanum source_unit_name =
     (let filtered = filter (\<lambda>ch. isalnum ch \<or> ch = CHR ''/'' \<or> ch = CHR ''_'') source_unit_name
      in join ''/''
           (map (\<lambda>segment. if segment \<noteq> [] \<and> hd segment \<in> set ''0123456789''
                            then ''_'' @ segment else segment)
              (split CHR ''/'' filtered)))"

definition generate_import ::
  "type_generator \<Rightarrow> declaration_abc \<Rightarrow> string \<Rightarrow> error + (string \<times> type_generator)" where
  "generate_import g decl source_unit_name =
     (let path = make_path_alphanum source_unit_name
      in bind (get_name g decl)
           (\<lambda>(nm, g'). Inr (''from pytypes.''
                             @ map (\<lambda>ch. if ch = CHR ''/'' then CHR ''.'' else ch)
                                 (take (length path - 3) path)
                             @ '' import '' @ nm, g')))"

text \<open>The struct, enum and contract imports: a declaration of the current source unit
  needs none. Reading \<^verbatim>\<open>source_unit_name\<close> of a node that is not a source unit
  raises \<^verbatim>\<open>AttributeError\<close>.\<close>

definition generate_struct_import :: "type_generator \<Rightarrow> declaration_abc \<Rightarrow> error + type_generator" where
  "generate_struct_import g ir_node =
     (case (case parent ir_node of
              ContractDefinition i nm su \<Rightarrow> SourceUnit su
            | p \<Rightarrow> p) of
        SourceUnit source_unit_name \<Rightarrow>
          if source_unit_name = current_source_unit g then Inr g
          else bind (generate_import g ir_node source_unit_name)
                 (\<lambda>(struct_import, g').
                    Inr (g'\<lparr>struct_imports := insert struct_import (struct_imports g')\<rparr>))
      | other \<Rightarrow> Inl AttributeError)"

definition generate_enum_import :: "type_generator \<Rightarrow> declaration_abc \<Rightarrow> error + type_generator" where
  "generate_enum_import g ir_node =
     (case parent ir_node of
        SourceUnit source_unit_name \<Rightarrow>
          if source_unit_name = current_source_unit g then Inr g
          else bind (generate_import g ir_node source_unit_name)
                 (\<lambda>(enum_import, g').
                    Inr (g'\<lparr>enum_imports := insert enum_import (enum_imports g')\<rparr>))
      | other \<Rightarrow> Inl AssertionError)"

definition generate_contract_import :: "type_generator \<Rightarrow> declaration_abc \<Rightarrow> error + type_generator" where
  "generate_contract_import g contract =
     (case parent contract of
        SourceUnit source_unit_name \<Rightarrow>
          if source_unit_name = current_source_unit g then Inr g
          else bind (generate_import g contract source_unit_name)
                 (\<lambda>(contract_import, g').
                    Inr (g'\<lparr>contract_imports := insert contract_import (contract_imports g')\<rparr>))
      | other \<Rightarrow> Inl AttributeError)"

text \<open>A contract definition met as the parent of a declaration, as the declaration it
  is.\<close>

definition contract_definition :: "nat \<Rightarrow> string \<Rightarrow> string \<Rightarrow> declaration_abc" where
  "contract_definition i nm su = \<lparr>uid = i, name = nm, parent = SourceUnit su\<rparr>"

text \<open>\<^verbatim>\<open>f"{self.get_name(parent)}.{self.get_name(ir_node)}"\<close>\<close>

definition dotted_name ::
  "type_generator \<Rightarrow> declaration_abc \<Rightarrow> declaration_abc \<Rightarrow> error + (string \<times> type_generator)" where
  "dotted_name g contract ir_node =
     bind (get_name g contract)
       (\<lambda>(parent_name, g1).
          bind (get_name g1 ir_node) (\<lambda>(nm, g2). Inr (parent_name @ ''.'' @ nm, g2)))"

text \<open>The name of a struct or enum type, with the import it needs: what the struct
  branch and the enum branch do, in \<^verbatim>\<open>parse_type_and_import\<close> and in the getter
  helper alike. \<open>top_level_import\<close> is \<open>generate_struct_import\<close> or
  \<open>generate_enum_import\<close>.\<close>

definition declared_type_name ::
  "(type_generator \<Rightarrow> declaration_abc \<Rightarrow> error + type_generator) \<Rightarrow> type_generator
     \<Rightarrow> declaration_abc \<Rightarrow> error + (string \<times> type_generator)" where
  "declared_type_name top_level_import g ir_node =
     (case parent ir_node of
        ContractDefinition i nm su \<Rightarrow>
          bind (generate_contract_import g (contract_definition i nm su))
            (\<lambda>g1. dotted_name g1 (contract_definition i nm su) ir_node)
      | other \<Rightarrow>
          bind (top_level_import g ir_node) (\<lambda>g1. get_name g1 ir_node))"

subsection \<open>\<^verbatim>\<open>parse_type_and_import\<close>\<close>

fun parse_type_and_import ::
  "type_generator \<Rightarrow> type_abc \<Rightarrow> bool \<Rightarrow> error + (string \<times> type_generator)" where
  "parse_type_and_import g (StructType ir_node) return_types =
     declared_type_name generate_struct_import g ir_node"
| "parse_type_and_import g (EnumType ir_node) return_types =
     declared_type_name generate_enum_import g ir_node"
| "parse_type_and_import g (UserDefinedValueType underlying) return_types =
     parse_type_and_import g underlying return_types"
| "parse_type_and_import g (Array base_type None) return_types =
     (case parse_type_and_import g base_type return_types of
        Inl e \<Rightarrow> Inl e
      | Inr (base, g') \<Rightarrow> Inr (''List['' @ base @ '']'', g'))"
| "parse_type_and_import g (Array base_type (Some n)) return_types =
     (if n \<le> 32 then
        (case parse_type_and_import g base_type return_types of
           Inl e \<Rightarrow> Inl e
         | Inr (base, g') \<Rightarrow> Inr (''List'' @ str_int n @ ''['' @ base @ '']'', g'))
      else
        (case parse_type_and_import g base_type return_types of
           Inl e \<Rightarrow> Inl e
         | Inr (base, g') \<Rightarrow>
             Inr (''Annotated[List['' @ base @ ''], Length('' @ str_int n @ '')]'', g')))"
| "parse_type_and_import g (ContractType ir_node) return_types =
     bind (generate_contract_import g ir_node) (\<lambda>g1. get_name g1 ir_node)"
| "parse_type_and_import g (FixedBytes bytes_count) return_types =
     Inr (''bytes'' @ str_int bytes_count, g)"
| "parse_type_and_import g (IntType bits_count) return_types =
     Inr (''int'' @ str_int bits_count, g)"
| "parse_type_and_import g (UIntType bits_count) return_types =
     Inr (''uint'' @ str_int bits_count, g)"
| "parse_type_and_import g (Mapping key_type value_type) return_types =
     (case parse_type_and_import g key_type return_types of
        Inl e \<Rightarrow> Inl e
      | Inr (k, g1) \<Rightarrow>
          (case parse_type_and_import g1 value_type return_types of
             Inl e \<Rightarrow> Inl e
           | Inr (v, g2) \<Rightarrow> Inr (''Dict['' @ k @ '', '' @ v @ '']'', g2)))"
| "parse_type_and_import g expr return_types =
     bind (sol_to_py_lookup expr)
       (\<lambda>(parameter_type, return_type).
          Inr (if return_types then return_type else parameter_type, g))"

section \<open>Getters of public state variables: \<^verbatim>\<open>generate_getter_for_state_var\<close>\<close>

subsection \<open>Type names\<close>

text \<open>
  A type name of the syntax tree has a \<^verbatim>\<open>type\<close> and a \<^verbatim>\<open>type_string\<close>; an array
  type name has the type name of its base type, a mapping type name those of its key
  and value types.
\<close>

datatype type_name =
    ElementaryTypeName type_abc string
  | UserDefinedTypeName type_abc string
  | FunctionTypeName type_abc string
  | ArrayTypeName type_abc string type_name
  | MappingTypeName type_abc string type_name type_name

fun type_of :: "type_name \<Rightarrow> type_abc" where
  "type_of (ElementaryTypeName t s) = t"
| "type_of (UserDefinedTypeName t s) = t"
| "type_of (FunctionTypeName t s) = t"
| "type_of (ArrayTypeName t s b) = t"
| "type_of (MappingTypeName t s k v) = t"

fun type_string :: "type_name \<Rightarrow> string" where
  "type_string (ElementaryTypeName t s) = s"
| "type_string (UserDefinedTypeName t s) = s"
| "type_string (FunctionTypeName t s) = s"
| "type_string (ArrayTypeName t s b) = s"
| "type_string (MappingTypeName t s k v) = s"

fun is_user_defined_type_name :: "type_name \<Rightarrow> bool" where
  "is_user_defined_type_name (UserDefinedTypeName t s) = True"
| "is_user_defined_type_name other = False"

text \<open>The members of a struct definition, each with its type and type string, are read
  from the syntax tree; \<open>members\<close> is that part of the tree.\<close>

type_synonym struct_members = "declaration_abc \<Rightarrow> (type_abc \<times> string) list"

fun is_compound_type :: "type_abc \<Rightarrow> bool" where
  "is_compound_type (Array b n) = True"
| "is_compound_type (Mapping k v) = True"
| "is_compound_type other = False"

subsection \<open>\<^verbatim>\<open>get_struct_return_list\<close>\<close>

text \<open>The loop over the members: a member that is neither a mapping nor an array
  contributes its mapped type and its type string.\<close>

fun non_excluded ::
  "type_generator \<Rightarrow> (type_abc \<times> string) list
     \<Rightarrow> error + ((string \<times> string) list \<times> type_generator)" where
  "non_excluded g [] = Inr ([], g)"
| "non_excluded g ((member_type, member_type_string) # rest) =
     (if \<not> is_compound_type member_type then
        (case parse_type_and_import g member_type True of
           Inl e \<Rightarrow> Inl e
         | Inr (mapped, g1) \<Rightarrow>
             (case non_excluded g1 rest of
                Inl e \<Rightarrow> Inl e
              | Inr (others, g2) \<Rightarrow> Inr ((mapped, member_type_string) # others, g2)))
      else non_excluded g rest)"

definition get_struct_return_list ::
  "struct_members \<Rightarrow> type_generator \<Rightarrow> type_name
     \<Rightarrow> error + ((string \<times> string) list \<times> type_generator)" where
  "get_struct_return_list members g struct_type_name =
     (case type_of struct_type_name of
        StructType node \<Rightarrow>
          bind (non_excluded g (members node))
            (\<lambda>(kept, g1).
               if length (members node) = length kept then
                 bind (declared_type_name generate_struct_import g1 node)
                   (\<lambda>(nm, g2). Inr ([(nm, type_string struct_type_name)], g2))
               else Inr (kept, g1))
      | other \<Rightarrow> Inl AssertionError)"

subsection \<open>\<^verbatim>\<open>generate_getter_helper\<close>\<close>

text \<open>The helper's variables: the generator, and the two lists it shares with
  the enclosing function.\<close>

record getter =
  generator :: type_generator
  returns :: "(string \<times> string) list"
  param_names :: "(string \<times> string) list"

text \<open>
  The branches for a type that is neither an array nor a mapping. Each computes
  \<open>parsed\<close> and sets \<open>returns\<close>; the caller's \<open>use_parse\<close> decides whether
  \<open>parsed\<close> is returned.
\<close>

definition simple_return :: "getter \<Rightarrow> string \<Rightarrow> string \<Rightarrow> string \<Rightarrow> string list \<times> getter" where
  "simple_return st parameter_type return_type ts =
     ([parameter_type], st\<lparr>returns := [(return_type, ts)]\<rparr>)"

definition getter_leaf ::
  "struct_members \<Rightarrow> getter \<Rightarrow> type_name \<Rightarrow> nat \<Rightarrow> error + (string list \<times> getter)" where
  "getter_leaf members st var_type_name depth =
     (case type_of var_type_name of
        StructType ir_node \<Rightarrow>
          bind (if depth = 0 then Inr ([], generator st)
                else bind (declared_type_name generate_struct_import (generator st) ir_node)
                       (\<lambda>(nm, g1). Inr ([nm], g1)))
            (\<lambda>(parsed, g1).
               if \<not> is_user_defined_type_name var_type_name then Inl AssertionError
               else bind (get_struct_return_list members g1 var_type_name)
                      (\<lambda>(rets, g2). Inr (parsed, st\<lparr>generator := g2, returns := rets\<rparr>)))
      | EnumType ir_node \<Rightarrow>
          (case parent ir_node of
             ContractDefinition i nm su \<Rightarrow>
               bind (generate_contract_import (generator st) (contract_definition i nm su))
                 (\<lambda>g1. bind (dotted_name g1 (contract_definition i nm su) ir_node)
                    (\<lambda>(parsed_name, g2).
                       bind (dotted_name g2 (contract_definition i nm su) ir_node)
                         (\<lambda>(return_name, g3).
                            Inr ([parsed_name],
                                 st\<lparr>generator := g3,
                                    returns := [(return_name, type_string var_type_name)]\<rparr>))))
           | other \<Rightarrow>
               bind (generate_enum_import (generator st) ir_node)
                 (\<lambda>g1. bind (get_name g1 ir_node)
                    (\<lambda>(parsed_name, g2).
                       bind (get_name g2 ir_node)
                         (\<lambda>(return_name, g3).
                            Inr ([parsed_name],
                                 st\<lparr>generator := g3,
                                    returns := [(return_name, type_string var_type_name)]\<rparr>)))))
      | UserDefinedValueType underlying_type \<Rightarrow>
          (case underlying_type of
             FixedBytes bytes_count \<Rightarrow>
               Inr (simple_return st (''bytes'' @ str_int bytes_count)
                      (''bytes'' @ str_int bytes_count) (type_string var_type_name))
           | IntType bits_count \<Rightarrow>
               Inr (simple_return st (''int'' @ str_int bits_count)
                      (''int'' @ str_int bits_count) (type_string var_type_name))
           | UIntType bits_count \<Rightarrow>
               Inr (simple_return st (''uint'' @ str_int bits_count)
                      (''uint'' @ str_int bits_count) (type_string var_type_name))
           | other \<Rightarrow>
               bind (sol_to_py_lookup underlying_type)
                 (\<lambda>(parameter_type, return_type).
                    Inr (simple_return st parameter_type return_type
                           (type_string var_type_name))))
      | ContractType ir_node \<Rightarrow>
          bind (generate_contract_import (generator st) ir_node)
            (\<lambda>g1. bind (get_name g1 ir_node)
               (\<lambda>(parsed_name, g2).
                  bind (get_name g2 ir_node)
                    (\<lambda>(return_name, g3).
                       Inr ([parsed_name],
                            st\<lparr>generator := g3,
                               returns := [(return_name, type_string var_type_name)]\<rparr>))))
      | FixedBytes bytes_count \<Rightarrow>
          Inr (simple_return st (''bytes'' @ str_int bytes_count)
                 (''bytes'' @ str_int bytes_count) (type_string var_type_name))
      | IntType bits_count \<Rightarrow>
          Inr (simple_return st (''int'' @ str_int bits_count)
                 (''int'' @ str_int bits_count) (type_string var_type_name))
      | UIntType bits_count \<Rightarrow>
          Inr (simple_return st (''uint'' @ str_int bits_count)
                 (''uint'' @ str_int bits_count) (type_string var_type_name))
      | other \<Rightarrow>
          bind (sol_to_py_lookup (type_of var_type_name))
            (\<lambda>(parameter_type, return_type).
               Inr (simple_return st parameter_type return_type (type_string var_type_name))))"

text \<open>
  The helper itself. An array type adds an index parameter and a mapping type a key
  parameter, and both go on into their type names; the \<^verbatim>\<open>assert isinstance\<close> of
  either branch fails when the type name is of another class. For every other type the
  branch above applies, and \<open>parsed\<close> is returned only under \<open>use_parse\<close>.
\<close>

fun generate_getter_helper ::
  "struct_members \<Rightarrow> getter \<Rightarrow> type_name \<Rightarrow> bool \<Rightarrow> nat \<Rightarrow> error + (string list \<times> getter)" where
  "generate_getter_helper members st (ArrayTypeName var_type ts base_type_name) use_parse depth =
     (case var_type of
        Array base_type len \<Rightarrow>
          (case generate_getter_helper members
                  (st\<lparr>param_names := param_names st @ [(''index'' @ str_nat depth, ''uint256'')]\<rparr>)
                  base_type_name (is_compound_type base_type) (depth + 1) of
             Inl e \<Rightarrow> Inl e
           | Inr (more_parsed, st1) \<Rightarrow>
               Inr ((''index'' @ str_nat depth @ '': int'')
                    # (if is_compound_type base_type then more_parsed else []), st1))
      | Mapping key_type value_type \<Rightarrow> Inl AssertionError
      | other \<Rightarrow>
          bind (getter_leaf members st (ArrayTypeName var_type ts base_type_name) depth)
            (\<lambda>(parsed, st1). Inr (if use_parse then parsed else [], st1)))"
| "generate_getter_helper members st (MappingTypeName var_type ts key_type_name value_type_name)
     use_parse depth =
     (case var_type of
        Mapping key_type value_type \<Rightarrow>
          (case generate_getter_helper members
                  (st\<lparr>param_names :=
                        param_names st @ [(''key'' @ str_nat depth, type_string key_type_name)]\<rparr>)
                  key_type_name True (depth + 1) of
             Inl e \<Rightarrow> Inl e
           | Inr (key_parsed, st1) \<Rightarrow>
               if length key_parsed \<noteq> 1 then Inl AssertionError
               else
                 (case generate_getter_helper members st1 value_type_name True (depth + 1) of
                    Inl e \<Rightarrow> Inl e
                  | Inr (more_parsed, st2) \<Rightarrow>
                      Inr ((''key'' @ str_nat depth @ '': '' @ hd key_parsed)
                           # (if is_compound_type value_type then more_parsed else []), st2)))
      | Array base_type len \<Rightarrow> Inl AssertionError
      | other \<Rightarrow>
          bind (getter_leaf members st
                  (MappingTypeName var_type ts key_type_name value_type_name) depth)
            (\<lambda>(parsed, st1). Inr (if use_parse then parsed else [], st1)))"
| "generate_getter_helper members st var_type_name use_parse depth =
     (case type_of var_type_name of
        Array base_type len \<Rightarrow> Inl AssertionError
      | Mapping key_type value_type \<Rightarrow> Inl AssertionError
      | other \<Rightarrow>
          bind (getter_leaf members st var_type_name depth)
            (\<lambda>(parsed, st1). Inr (if use_parse then parsed else [], st1)))"

subsection \<open>The signature of the getter\<close>

text \<open>
  \<^verbatim>\<open>generate_getter_for_state_var\<close> up to the return annotation: the parameters, the
  parameter names, the list of returns and \<^verbatim>\<open>returns_str\<close>. The stubs and the
  implementation it then writes are text built from these four.
\<close>

definition returns_str :: "(string \<times> string) list \<Rightarrow> string" where
  "returns_str rets =
     (if length rets = 0 then ''None''
      else if length rets = 1 then fst (hd rets)
      else ''Tuple['' @ join '', '' (map fst rets) @ '']'')"

definition generate_getter_for_state_var ::
  "struct_members \<Rightarrow> type_generator \<Rightarrow> type_name
     \<Rightarrow> error + (string list \<times> (string \<times> string) list \<times> (string \<times> string) list \<times> string
                 \<times> type_generator)" where
  "generate_getter_for_state_var members g decl_type_name =
     bind (generate_getter_helper members
             \<lparr>generator = g, returns = [], param_names = []\<rparr> decl_type_name False 0)
       (\<lambda>(generated_params, st).
          Inr (generated_params, param_names st, returns st, returns_str (returns st),
               generator st))"

text \<open>The mapped types of a list of members, one after the other, each with its type
  string: what a getter exposes of the members it is given.\<close>

fun map_members ::
  "type_generator \<Rightarrow> (type_abc \<times> string) list
     \<Rightarrow> error + ((string \<times> string) list \<times> type_generator)" where
  "map_members g [] = Inr ([], g)"
| "map_members g ((member_type, member_type_string) # rest) =
     (case parse_type_and_import g member_type True of
        Inl e \<Rightarrow> Inl e
      | Inr (mapped, g1) \<Rightarrow>
          (case map_members g1 rest of
             Inl e \<Rightarrow> Inl e
           | Inr (others, g2) \<Rightarrow> Inr ((mapped, member_type_string) # others, g2)))"

definition exposed :: "(type_abc \<times> string) list \<Rightarrow> (type_abc \<times> string) list" where
  "exposed ms = filter (\<lambda>member. \<not> is_compound_type (fst member)) ms"

section \<open>Unit scheduler: the generation order of \<^verbatim>\<open>generate_types\<close>\<close>

subsection \<open>The graph library\<close>

text \<open>
  The import graph is a directed graph of the \<^verbatim>\<open>networkx\<close> library: nodes in
  insertion order and edges without duplicates. The scheduler names a node where the
  library takes a bunch of nodes: a name that is a node stands for itself, any other
  name is read as a sequence of one-character names, of which those that are nodes
  count.
\<close>

record digraph =
  nodes :: "string list"
  edges :: "(string \<times> string) list"

definition nbunch_iter :: "digraph \<Rightarrow> string \<Rightarrow> string list" where
  "nbunch_iter graph nbunch =
     (if nbunch \<in> set (nodes graph) then [nbunch]
      else remdups (filter (\<lambda>n. n \<in> set (nodes graph)) (map (\<lambda>c. [c]) nbunch)))"

definition in_degree :: "digraph \<Rightarrow> string \<Rightarrow> nat" where
  "in_degree graph n = length (filter (\<lambda>edge. snd edge = n) (edges graph))"

definition out_edges :: "digraph \<Rightarrow> string \<Rightarrow> (string \<times> string) list" where
  "out_edges graph nbunch =
     concat (map (\<lambda>n. filter (\<lambda>edge. fst edge = n) (edges graph)) (nbunch_iter graph nbunch))"

definition in_edges :: "digraph \<Rightarrow> string \<Rightarrow> (string \<times> string) list" where
  "in_edges graph nbunch =
     concat (map (\<lambda>n. filter (\<lambda>edge. snd edge = n) (edges graph)) (nbunch_iter graph nbunch))"

definition remove_nodes_from :: "digraph \<Rightarrow> string list \<Rightarrow> digraph" where
  "remove_nodes_from graph ns =
     \<lparr>nodes = filter (\<lambda>n. n \<notin> set ns) (nodes graph),
      edges = filter (\<lambda>edge. fst edge \<notin> set ns \<and> snd edge \<notin> set ns) (edges graph)\<rparr>"

subsection \<open>What the run is given\<close>

text \<open>
  From the build: the file-system path of every source unit name
  (\<^verbatim>\<open>source_units_info\<close>), and the source unit compiled at a path, by its name
  (\<^verbatim>\<open>source_units\<close>). From the Python run time: the cycles \<^verbatim>\<open>nx.simple_cycles\<close>
  enumerates, each as a list of nodes; the order in which a \<^verbatim>\<open>frozenset\<close> of names
  is iterated, which follows the hashes of the strings; and the order in which
  \<^verbatim>\<open>sorted\<close> leaves a set of such frozensets, which it compares by inclusion.
\<close>

record build =
  source_units_info :: "(string \<times> string) list"
  source_units :: "(string \<times> string) list"

record runtime =
  simple_cycles :: "digraph \<Rightarrow> string list list"
  iterate :: "string set \<Rightarrow> string list"
  sorted_cycles :: "string set list \<Rightarrow> string set list"

text \<open>\<^verbatim>\<open>paths_to_source_unit_names\<close>: the names that share a path. The iteration
  order of this set is unspecified; the model takes the order of
  \<^verbatim>\<open>source_units_info\<close>.\<close>

definition paths_to_source_unit_names :: "build \<Rightarrow> string \<Rightarrow> string list" where
  "paths_to_source_unit_names b path =
     remdups (map fst (filter (\<lambda>entry. snd entry = path) (source_units_info b)))"

subsection \<open>The scheduler's variables\<close>

text \<open>
  \<open>generated\<close> lists the source units handed to \<^verbatim>\<open>generate_source_unit\<close>, in
  order; what that function writes is no part of the scheduling. The set
  \<^verbatim>\<open>visited\<close> is written and never read, and is left out.
\<close>

record scheduler =
  graph :: digraph
  generated :: "string list"
  cycles :: "string set list"
  cycles_detected :: bool
  previous_len :: nat

definition generate_at :: "build \<Rightarrow> string \<Rightarrow> scheduler \<Rightarrow> scheduler" where
  "generate_at b path st =
     (case map_of (source_units b) path of
        None \<Rightarrow> st
      | Some source_unit \<Rightarrow> st\<lparr>generated := generated st @ [source_unit]\<rparr>)"

subsection \<open>The frontier\<close>

text \<open>The successors pushed for one popped source: every target of an out-edge of a
  name of its path whose in-degree is 1.\<close>

definition promoted :: "build \<Rightarrow> digraph \<Rightarrow> string \<Rightarrow> string list" where
  "promoted b g path =
     concat (map (\<lambda>source_unit_name.
                    map snd (filter (\<lambda>edge. in_degree g (snd edge) = 1)
                               (out_edges g source_unit_name)))
               (paths_to_source_unit_names b path))"

text \<open>\<^verbatim>\<open>while len(sources) > 0\<close>: the heap is the list of its elements, and
  \<^verbatim>\<open>heappop\<close> takes the least.\<close>

partial_function (option) frontier ::
  "build \<Rightarrow> string list \<Rightarrow> scheduler \<Rightarrow> (error + scheduler) option" where
  "frontier b sources st =
     (if sources = [] then Some (Inr st)
      else (case map_of (source_units_info b) (Min (set sources)) of
              None \<Rightarrow> Some (Inl KeyError)
            | Some path \<Rightarrow>
                frontier b
                  (remove1 (Min (set sources)) sources @ promoted b (graph st) path)
                  ((generate_at b path st)
                     \<lparr>graph := remove_nodes_from (graph st)
                                 (paths_to_source_unit_names b path)\<rparr>)))"

subsection \<open>The cycles\<close>

text \<open>A cycle is closed when no member has an in-edge from outside the cycle.\<close>

definition is_closed_cycle :: "digraph \<Rightarrow> string list \<Rightarrow> bool" where
  "is_closed_cycle g cycle =
     list_all (\<lambda>n. \<not> list_ex (\<lambda>edge. fst edge \<notin> set cycle) (in_edges g n)) cycle"

text \<open>\<^verbatim>\<open>for cycle in nx.simple_cycles(graph)\<close>, on the pair of \<^verbatim>\<open>cycles\<close> and
  \<^verbatim>\<open>generated_cycles\<close>.\<close>

fun detect :: "digraph \<Rightarrow> string list list \<Rightarrow> string set list \<times> string set list
     \<Rightarrow> string set list \<times> string set list" where
  "detect g [] found = found"
| "detect g (cycle # rest) (all_cycles, generated_cycles) =
     detect g rest
       (if set cycle \<in> set all_cycles then all_cycles else all_cycles @ [set cycle],
        if set cycle \<in> set generated_cycles then generated_cycles
        else if is_closed_cycle g cycle then generated_cycles @ [set cycle]
        else generated_cycles)"

text \<open>\<^verbatim>\<open>for source in cycle\<close>, over the members in the order the frozenset yields
  them.\<close>

fun flush :: "build \<Rightarrow> string list \<Rightarrow> scheduler \<Rightarrow> error + scheduler" where
  "flush b [] st = Inr st"
| "flush b (source # rest) st =
     (case map_of (source_units_info b) source of
        None \<Rightarrow> Inl KeyError
      | Some path \<Rightarrow>
          flush b rest
            ((generate_at b path st)
               \<lparr>graph := remove_nodes_from (graph st) (paths_to_source_unit_names b path)\<rparr>))"

fun flush_cycles :: "build \<Rightarrow> runtime \<Rightarrow> string set list \<Rightarrow> scheduler \<Rightarrow> error + scheduler" where
  "flush_cycles b rt [] st = Inr st"
| "flush_cycles b rt (cycle # rest) st =
     (case flush b (iterate rt cycle) st of
        Inl e \<Rightarrow> Inl e
      | Inr st' \<Rightarrow> flush_cycles b rt rest st')"

definition cycle_phase :: "build \<Rightarrow> runtime \<Rightarrow> scheduler \<Rightarrow> error + scheduler" where
  "cycle_phase b rt st =
     (let found = simple_cycles rt (graph st);
          (all_cycles, generated_cycles) = detect (graph st) found (cycles st, [])
      in flush_cycles b rt (sorted_cycles rt generated_cycles)
           (st\<lparr>cycles := all_cycles, cycles_detected := (cycles_detected st \<or> found \<noteq> [])\<rparr>))"

subsection \<open>The outer loop and the warning\<close>

partial_function (option) schedule ::
  "build \<Rightarrow> runtime \<Rightarrow> scheduler \<Rightarrow> (error + scheduler) option" where
  "schedule b rt st =
     (if length (nodes (graph st)) > 0 then
        (case frontier b
                (filter (\<lambda>n. in_degree (graph st) n = 0) (nodes (graph st))) st of
           None \<Rightarrow> None
         | Some (Inl e) \<Rightarrow> Some (Inl e)
         | Some (Inr st1) \<Rightarrow>
             (case cycle_phase b rt st1 of
                Inl e \<Rightarrow> Some (Inl e)
              | Inr st2 \<Rightarrow>
                  if length (nodes (graph st2)) = previous_len st2 then Some (Inr st2)
                  else schedule b rt (st2\<lparr>previous_len := length (nodes (graph st2))\<rparr>)))
      else Some (Inr st))"

text \<open>The order of generation, and the entries of the warning when one is logged: one
  entry for each detected cycle, as a set of names.\<close>

definition generate_types ::
  "build \<Rightarrow> runtime \<Rightarrow> digraph \<Rightarrow> (error + string list \<times> string set list option) option" where
  "generate_types b rt latest_graph =
     (case schedule b rt
             \<lparr>graph = latest_graph, generated = [], cycles = [], cycles_detected = False,
              previous_len = length (nodes latest_graph)\<rparr> of
        None \<Rightarrow> None
      | Some (Inl e) \<Rightarrow> Some (Inl e)
      | Some (Inr st) \<Rightarrow>
          Some (Inr (generated st, if cycles_detected st then Some (cycles st) else None)))"

section \<open>Properties of the bytecode decoder\<close>

lemma parse_tokens_table:
  "parse_tokens toks pc ig acc = Inr tbl \<Longrightarrow> (ig \<longrightarrow> toks \<noteq> []) \<Longrightarrow>
     \<exists>new. tbl = acc @ new \<and> accumulated pc new \<and> list_all sized new \<and>
           length toks = length new + pushes new + (if ig then 1 else 0)"
proof (induction toks pc ig acc arbitrary: tbl rule: parse_tokens.induct)
  case (1 pc ignore pc_op_map)
  then show ?case by (simp add: pushes_def)
next
  case (2 opcode rest pc ignore pc_op_map)
  show ?case
  proof (cases ignore)
    case True
    with 2 show ?thesis by auto
  next
    case notig: False
    show ?thesis
    proof (cases "startswith opcode ''PUSH''")
      case False
      with notig 2 obtain new where
        "tbl = (pc_op_map @ [(pc, opcode, 1, None)]) @ new" "accumulated (pc + 1) new"
        "list_all sized new" "length rest = length new + pushes new"
        by auto
      then show ?thesis using False notig
        by (intro exI[of _ "(pc, opcode, 1, None) # new"]) (simp add: pushes_def)
    next
      case True
      from "2.prems"(1) True notig obtain n operand rest' a where
        n: "py_int 10 (drop 4 opcode) = Inr n" and r: "rest = operand # rest'"
        and a: "py_int 16 operand = Inr a"
        and res: "parse_tokens rest (pc + (n + 1)) True
                    (pc_op_map @ [(pc, opcode, n + 1, Some a)]) = Inr tbl"
        by (auto simp: Let_def split: sum.splits list.splits)
      from "2.IH"(3)[OF notig _ n refl r a] True res r obtain new where
        "tbl = (pc_op_map @ [(pc, opcode, n + 1, Some a)]) @ new"
        "accumulated (pc + (n + 1)) new"
        "list_all sized new" "length rest = length new + pushes new + 1"
        by auto
      then show ?thesis using True notig n
        by (intro exI[of _ "(pc, opcode, n + 1, Some a) # new"]) (simp add: pushes_def)
    qed
  qed
qed

lemmas decoder_simps =
  parse_opcodes_def startswith_def py_int_def strip_def isspace_def digit_value_def
  pushes_def

text \<open>
  Claim C2. The disassembly \<^verbatim>\<open>PUSH1 0x05 ADD STOP\<close> decodes to three
  instructions at program counters 0, 2 and 3. In general, whenever decoding succeeds,
  the program counters start at 0 and each is the previous one plus the previous size;
  a push of declared size \<open>n\<close> has size \<open>n + 1\<close>, any other opcode has size 1; and the
  table has one entry per token except that the token after each push, its operand, has
  none.
\<close>

theorem parse_opcodes_program_counters:
  "parse_opcodes ''PUSH1 0x05 ADD STOP'' =
     Inr [(0, ''PUSH1'', 2, Some 5), (2, ''ADD'', 1, None), (3, ''STOP'', 1, None)]
   \<and> (\<forall>tbl. parse_opcodes ''PUSH1 0x05 ADD STOP'' = Inr tbl \<longrightarrow> map fst tbl = [0, 2, 3])
   \<and> (\<forall>opcodes tbl. parse_opcodes opcodes = Inr tbl \<longrightarrow>
        accumulated 0 tbl \<and> list_all sized tbl \<and>
        length (split CHR '' '' opcodes) = length tbl + pushes tbl)"
proof (intro conjI allI impI)
  show ex: "parse_opcodes ''PUSH1 0x05 ADD STOP'' =
     Inr [(0, ''PUSH1'', 2, Some 5), (2, ''ADD'', 1, None), (3, ''STOP'', 1, None)]"
    by (simp add: decoder_simps)
  fix tbl
  assume "parse_opcodes ''PUSH1 0x05 ADD STOP'' = Inr tbl"
  with ex show "map fst tbl = [0, 2, 3]" by auto
next
  fix opcodes tbl
  assume "parse_opcodes opcodes = Inr tbl"
  then have "\<exists>new. tbl = [] @ new \<and> accumulated 0 new \<and> list_all sized new \<and>
      length (split CHR '' '' opcodes) = length new + pushes new + (if False then 1 else 0)"
    unfolding parse_opcodes_def by (intro parse_tokens_table) simp_all
  then have r: "accumulated 0 tbl \<and> list_all sized tbl \<and>
      length (split CHR '' '' opcodes) = length tbl + pushes tbl"
    by simp
  from r show "accumulated 0 tbl" by simp
  from r show "list_all sized tbl" by simp
  from r show "length (split CHR '' '' opcodes) = length tbl + pushes tbl" by simp
qed

theorem parse_opcodes_program_counters_witness:
  "parse_opcodes ''PUSH1 0x05 ADD STOP'' =
     Inr [(0, ''PUSH1'', 2, Some 5), (2, ''ADD'', 1, None), (3, ''STOP'', 1, None)]
   \<and> map fst [(0::int, ''PUSH1'', 2::int, Some (5::int)), (2, ''ADD'', 1, None),
               (3, ''STOP'', 1, None)] = [0, 2, 3]
   \<and> parse_opcodes ''PUSH2 0xbeef JUMP'' =
       Inr [(0, ''PUSH2'', 3, Some 48879), (3, ''JUMP'', 1, None)]
   \<and> accumulated 0 [(0, ''PUSH2'', 3, Some 48879), (3, ''JUMP'', 1, None)]
   \<and> list_all sized [(0, ''PUSH2'', 3, Some 48879), (3, ''JUMP'', 1, None)]
   \<and> length (split CHR '' '' ''PUSH2 0xbeef JUMP'') = 3"
proof -
  have a: "parse_opcodes ''PUSH1 0x05 ADD STOP'' =
     Inr [(0, ''PUSH1'', 2, Some 5), (2, ''ADD'', 1, None), (3, ''STOP'', 1, None)]"
    by (simp add: decoder_simps)
  have b: "parse_opcodes ''PUSH2 0xbeef JUMP'' =
       Inr [(0, ''PUSH2'', 3, Some 48879), (3, ''JUMP'', 1, None)]"
    by (simp add: decoder_simps)
  from parse_opcodes_program_counters
  have "map fst [(0::int, ''PUSH1'', 2::int, Some (5::int)), (2, ''ADD'', 1, None),
               (3, ''STOP'', 1, None)] = [0, 2, 3]"
    and "accumulated 0 [(0, ''PUSH2'', 3, Some 48879), (3, ''JUMP'', 1, None)]
        \<and> list_all sized [(0, ''PUSH2'', 3, Some 48879), (3, ''JUMP'', 1, None)]
        \<and> length (split CHR '' '' ''PUSH2 0xbeef JUMP'') =
            length [(0::int, ''PUSH2'', 3::int, Some (48879::int)), (3, ''JUMP'', 1, None)]
            + pushes [(0, ''PUSH2'', 3, Some 48879), (3, ''JUMP'', 1, None)]"
    using a b by blast+
  with a b show ?thesis by (simp add: pushes_def)
qed
section \<open>Properties of the identifier sanitizer\<close>

declare new_name_loop.simps [simp del]

lemma new_name_loop_free: "\<not> check self sc nm \<Longrightarrow> new_name_loop self sc nm = nm"
  by (subst new_name_loop.simps) simp

lemma new_name_loop_taken:
  "check self sc nm \<Longrightarrow> new_name_loop self sc nm = new_name_loop self sc (nm @ ''_'')"
  by (subst new_name_loop.simps) simp

lemma new_name_loop_unchecked: "\<not> check self sc (new_name_loop self sc nm)"
  by (induction self sc nm rule: new_name_loop.induct)
     (metis new_name_loop_free new_name_loop_taken)

lemma check_chosen: "nm \<in> chosen (renames self sc) \<Longrightarrow> check self sc nm"
  by (cases sc)
     (simp_all add: check_global_def check_contract_def check_struct_def check_enum_def
        check_function_def check_event_def check_error_def)

lemma renames_store: "renames (store self sc t) sc' = (if sc' = sc then t else renames self sc')"
  by (cases sc; cases sc') simp_all

lemma renames_clear:
  "renames (clear_global_renames self) sc = (if sc = Global then [] else renames self sc)"
  by (cases sc) (simp_all add: clear_global_renames_def)

lemma sanitize_name_cached:
  "scope_of d = Inr sc \<Longrightarrow> map_of (renames self sc) d = Some n \<Longrightarrow>
     sanitize_name self d = Inr (n, self)"
  by (simp add: sanitize_name_def)

lemma sanitize_name_step:
  assumes "sanitize_name self d = Inr (n, self')"
  shows "\<exists>sc. scope_of d = Inr sc \<and> map_of (renames self' sc) d = Some n \<and>
           (\<forall>sc'. sc' \<noteq> sc \<longrightarrow> renames self' sc' = renames self sc') \<and>
           (self' = self \<or>
            (map_of (renames self sc) d = None \<and> \<not> check self sc n \<and>
             renames self' sc = renames self sc @ [(d, n)]))"
proof (cases "scope_of d")
  case (Inl e)
  with assms show ?thesis by (simp add: sanitize_name_def)
next
  case (Inr sc)
  show ?thesis
  proof (cases "map_of (renames self sc) d")
    case (Some c)
    with Inr assms show ?thesis by (auto simp: sanitize_name_def)
  next
    case None
    with Inr assms have n: "n = new_name_loop self sc (name d)"
      and s: "self' = store self sc (renames self sc @ [(d, n)])"
      by (auto simp: sanitize_name_def Let_def)
    from n have "\<not> check self sc n" by (simp add: new_name_loop_unchecked)
    with None Inr s show ?thesis
      by (auto simp: renames_store map_add_def split: option.splits)
  qed
qed

lemma unique_names_init: "unique_names NameSanitizer"
proof -
  have "renames NameSanitizer sc = []" for sc
    by (cases sc) (simp_all add: NameSanitizer_def)
  then show ?thesis by (simp add: unique_names_def)
qed

lemma unique_names_clear: "unique_names self \<Longrightarrow> unique_names (clear_global_renames self)"
  by (simp add: unique_names_def renames_clear)

lemma unique_names_sanitize:
  assumes "unique_names self" "sanitize_name self d = Inr (n, self')"
  shows "unique_names self'"
proof -
  from sanitize_name_step[OF assms(2)] obtain sc where
    oth: "\<forall>sc'. sc' \<noteq> sc \<longrightarrow> renames self' sc' = renames self sc'" and
    upd: "self' = self \<or> (\<not> check self sc n \<and> renames self' sc = renames self sc @ [(d, n)])"
    by blast
  show ?thesis
    unfolding unique_names_def
  proof
    fix sc'
    show "distinct (map snd (renames self' sc'))"
    proof (cases "sc' = sc")
      case False
      with oth assms(1) show ?thesis by (simp add: unique_names_def)
    next
      case True
      from upd show ?thesis
      proof
        assume "self' = self"
        with assms(1) show ?thesis by (simp add: unique_names_def)
      next
        assume a: "\<not> check self sc n \<and> renames self' sc = renames self sc @ [(d, n)]"
        then have "n \<notin> chosen (renames self sc)" using check_chosen by blast
        with a True assms(1) show ?thesis by (simp add: unique_names_def chosen_def)
      qed
    qed
  qed
qed

lemma calls_length: "calls self reqs = Inr outs \<Longrightarrow> length outs = length reqs"
proof (induction reqs arbitrary: self outs)
  case Nil
  then show ?case by simp
next
  case (Cons r reqs)
  then show ?case
    by (cases r) (auto split: sum.splits prod.splits)
qed

lemma later_call:
  assumes "unique_names self" "map_of (renames self sc) d = Some n" "scope_of d' = Inr sc"
    "sc = Global \<longrightarrow> ClearGlobalRenames \<notin> set mid"
    "calls self (mid @ [Sanitize d']) = Inr outs"
  shows "last outs = Some n \<longleftrightarrow> d' = d"
  using assms
proof (induction mid arbitrary: self outs)
  case Nil
  from Nil.prems(5) obtain n' self' where s: "sanitize_name self d' = Inr (n', self')"
    and o: "outs = [Some n']"
    by (auto split: sum.splits prod.splits)
  show ?case
  proof (cases "d' = d")
    case True
    with Nil.prems(2,3) s o show ?thesis by (simp add: sanitize_name_cached)
  next
    case False
    from Nil.prems(2) have in_n: "(d, n) \<in> set (renames self sc)" by (rule map_of_SomeD)
    have "n' \<noteq> n"
    proof (cases "map_of (renames self sc) d'")
      case None
      with s Nil.prems(3) have "\<not> check self sc n'"
        using sanitize_name_step[OF s] by auto
      then have "n' \<notin> chosen (renames self sc)" using check_chosen by blast
      with in_n show ?thesis by (force simp: chosen_def)
    next
      case (Some c)
      with s Nil.prems(3) have "n' = c" by (simp add: sanitize_name_cached)
      with Some have "(d', n') \<in> set (renames self sc)" by (simp add: map_of_SomeD)
      with in_n False Nil.prems(1) show ?thesis
        by (metis unique_names_def distinct_map inj_on_def prod.collapse fst_conv snd_conv)
    qed
    with False o show ?thesis by simp
  qed
next
  case (Cons r mid)
  show ?case
  proof (cases r)
    case ClearGlobalRenames
    with Cons.prems(5) obtain outs' where
      c: "calls (clear_global_renames self) (mid @ [Sanitize d']) = Inr outs'"
      and o: "outs = None # outs'"
      by (auto split: sum.splits)
    from ClearGlobalRenames Cons.prems(4) have ng: "sc \<noteq> Global" by auto
    from calls_length[OF c] have "outs' \<noteq> []" by auto
    with o have l: "last outs = last outs'" by simp
    from Cons.IH[OF unique_names_clear[OF Cons.prems(1)] _ Cons.prems(3) _ c] ng Cons.prems(2,4) l
    show ?thesis by (simp add: renames_clear)
  next
    case (Sanitize x)
    with Cons.prems(5) obtain m self' outs' where
      s: "sanitize_name self x = Inr (m, self')" and
      c: "calls self' (mid @ [Sanitize d']) = Inr outs'" and o: "outs = Some m # outs'"
      by (auto split: sum.splits prod.splits)
    from calls_length[OF c] have "outs' \<noteq> []" by auto
    with o have l: "last outs = last outs'" by simp
    have keep: "map_of (renames self' sc) d = Some n"
      using sanitize_name_step[OF s] Cons.prems(2)
      by (metis map_add_Some_iff map_of_append)
    from Cons.IH[OF unique_names_sanitize[OF Cons.prems(1) s] keep Cons.prems(3) _ c] Cons.prems(4) l
    show ?thesis by simp
  qed
qed

lemma no_dunder_init: "no_dunder NameSanitizer"
proof -
  have "renames NameSanitizer sc = []" for sc
    by (cases sc) (simp_all add: NameSanitizer_def)
  then show ?thesis by (simp add: no_dunder_def chosen_def)
qed

lemma no_dunder_clear: "no_dunder self \<Longrightarrow> no_dunder (clear_global_renames self)"
  by (simp add: no_dunder_def renames_clear chosen_def)

lemma check_dunder: "class_scope sc \<Longrightarrow> dunder nm \<Longrightarrow> check self sc nm"
  by (cases sc)
     (simp_all add: check_contract_def check_struct_def check_enum_def
        check_event_def check_error_def)

lemma no_dunder_sanitize:
  assumes "no_dunder self" "sanitize_name self d = Inr (n, self')"
  shows "no_dunder self'"
proof -
  from sanitize_name_step[OF assms(2)] obtain sc where
    oth: "\<forall>sc'. sc' \<noteq> sc \<longrightarrow> renames self' sc' = renames self sc'" and
    upd: "self' = self \<or> (\<not> check self sc n \<and> renames self' sc = renames self sc @ [(d, n)])"
    by blast
  from upd show ?thesis
  proof
    assume "self' = self"
    with assms(1) show ?thesis by simp
  next
    assume a: "\<not> check self sc n \<and> renames self' sc = renames self sc @ [(d, n)]"
    show ?thesis
      unfolding no_dunder_def
    proof (intro allI impI ballI)
      fix sc' nm
      assume cs: "class_scope sc'" and nm: "nm \<in> chosen (renames self' sc')"
      show "\<not> dunder nm"
      proof (cases "sc' = sc")
        case False
        with oth assms(1) cs nm show ?thesis by (simp add: no_dunder_def)
      next
        case True
        with a nm have "nm = n \<or> nm \<in> chosen (renames self sc)"
          by (auto simp: chosen_def)
        then show ?thesis
        proof
          assume "nm = n"
          with a cs True check_dunder show ?thesis by blast
        next
          assume "nm \<in> chosen (renames self sc)"
          with assms(1) cs True show ?thesis by (simp add: no_dunder_def)
        qed
      qed
    qed
  qed
qed

lemma sanitize_name_no_dunder:
  assumes "no_dunder self" "sanitize_name self d = Inr (n, self')" "scope_of d = Inr sc"
    "class_scope sc"
  shows "\<not> dunder n"
proof -
  from sanitize_name_step[OF assms(2)] assms(3)
  have "map_of (renames self' sc) d = Some n" by auto
  then have "n \<in> chosen (renames self' sc)"
    by (force simp: chosen_def dest: map_of_SomeD)
  with no_dunder_sanitize[OF assms(1,2)] assms(4) show ?thesis
    by (simp add: no_dunder_def)
qed

lemma calls_no_dunder:
  assumes "no_dunder self" "calls self (pre @ Sanitize d # post) = Inr outs"
    "scope_of d = Inr sc" "class_scope sc"
  shows "\<exists>n. outs ! length pre = Some n \<and> \<not> dunder n"
  using assms(1,2)
proof (induction pre arbitrary: self outs)
  case Nil
  then obtain n self' outs' where s: "sanitize_name self d = Inr (n, self')"
    and o: "outs = Some n # outs'"
    by (auto split: sum.splits prod.splits)
  with sanitize_name_no_dunder[OF Nil.prems(1) s assms(3,4)] show ?case by simp
next
  case (Cons r pre)
  show ?case
  proof (cases r)
    case ClearGlobalRenames
    with Cons.prems(2) obtain outs' where
      "calls (clear_global_renames self) (pre @ Sanitize d # post) = Inr outs'"
      "outs = None # outs'"
      by (auto split: sum.splits)
    with Cons.IH[OF no_dunder_clear[OF Cons.prems(1)]] show ?thesis by simp
  next
    case (Sanitize x)
    with Cons.prems(2) obtain m self' outs' where
      s: "sanitize_name self x = Inr (m, self')" and
      c: "calls self' (pre @ Sanitize d # post) = Inr outs'" and o: "outs = Some m # outs'"
      by (auto split: sum.splits prod.splits)
    with Cons.IH[OF no_dunder_sanitize[OF Cons.prems(1) s] c] show ?thesis by simp
  qed
qed

lemma calls_same_scope:
  assumes "unique_names self"
    "calls self (pre @ Sanitize d # mid @ [Sanitize d']) = Inr outs"
    "scope_of d = Inr sc" "scope_of d' = Inr sc"
    "sc = Global \<longrightarrow> ClearGlobalRenames \<notin> set mid"
  shows "outs ! length pre = last outs \<longleftrightarrow> d' = d"
  using assms(1,2)
proof (induction pre arbitrary: self outs)
  case Nil
  then obtain n self' outs' where s: "sanitize_name self d = Inr (n, self')"
    and c: "calls self' (mid @ [Sanitize d']) = Inr outs'"
    and o: "outs = Some n # outs'"
    by (auto split: sum.splits prod.splits)
  from calls_length[OF c] have "outs' \<noteq> []" by auto
  with o have l: "last outs = last outs'" by simp
  from sanitize_name_step[OF s] assms(3)
  have "map_of (renames self' sc) d = Some n" by auto
  from later_call[OF unique_names_sanitize[OF Nil.prems(1) s] this assms(4,5) c] l o
  show ?case by auto
next
  case (Cons r pre)
  show ?case
  proof (cases r)
    case ClearGlobalRenames
    with Cons.prems(2) obtain outs' where
      c: "calls (clear_global_renames self) (pre @ Sanitize d # mid @ [Sanitize d']) = Inr outs'"
      and o: "outs = None # outs'"
      by (auto split: sum.splits)
    from calls_length[OF c] have "outs' \<noteq> []" by auto
    with o Cons.IH[OF unique_names_clear[OF Cons.prems(1)] c] show ?thesis by simp
  next
    case (Sanitize x)
    with Cons.prems(2) obtain m self' outs' where
      s: "sanitize_name self x = Inr (m, self')" and
      c: "calls self' (pre @ Sanitize d # mid @ [Sanitize d']) = Inr outs'"
      and o: "outs = Some m # outs'"
      by (auto split: sum.splits prod.splits)
    from calls_length[OF c] have "outs' \<noteq> []" by auto
    with o Cons.IH[OF unique_names_sanitize[OF Cons.prems(1) s] c] show ?thesis by simp
  qed
qed

lemma str_nat_digits:
  "n < 10 \<Longrightarrow> str_nat n = [digit_char n]"
  "10 \<le> n \<Longrightarrow> str_nat n = str_nat (n div 10) @ [digit_char (n mod 10)]"
  by (subst str_nat.simps, simp)+

lemma global_reserved_eval:
  "global_reserved =
     [''Dict'', ''List'', ''Mapping'', ''Set'', ''Tuple'', ''Union'', ''Annotated'',
      ''Optional'', ''Literal'', ''Callable'', ''Path'', ''bytearray'', ''IntEnum'',
      ''dataclasses'', ''overload'', ''Contract'', ''Library'', ''Address'', ''Account'',
      ''Chain'', ''RequestType'', ''TransactionRevertedError'', ''TransactionAbc'',
      ''LegacyTransaction'', ''Eip2930Transaction'', ''Eip1559Transaction'',
      ''ValueRange'', ''Length'', ''bytes'', ''int'', ''uint'', ''str'', ''bool'',
      ''uint8'', ''int8'', ''uint16'', ''int16'', ''uint24'', ''int24'', ''uint32'',
      ''int32'', ''uint40'', ''int40'', ''uint48'', ''int48'', ''uint56'', ''int56'',
      ''uint64'', ''int64'', ''uint72'', ''int72'', ''uint80'', ''int80'', ''uint88'',
      ''int88'', ''uint96'', ''int96'', ''uint104'', ''int104'', ''uint112'', ''int112'',
      ''uint120'', ''int120'', ''uint128'', ''int128'', ''uint136'', ''int136'',
      ''uint144'', ''int144'', ''uint152'', ''int152'', ''uint160'', ''int160'',
      ''uint168'', ''int168'', ''uint176'', ''int176'', ''uint184'', ''int184'',
      ''uint192'', ''int192'', ''uint200'', ''int200'', ''uint208'', ''int208'',
      ''uint216'', ''int216'', ''uint224'', ''int224'', ''uint232'', ''int232'',
      ''uint240'', ''int240'', ''uint248'', ''int248'', ''uint256'', ''int256'',
      ''bytes1'', ''List1'', ''bytes2'', ''List2'', ''bytes3'', ''List3'', ''bytes4'',
      ''List4'', ''bytes5'', ''List5'', ''bytes6'', ''List6'', ''bytes7'', ''List7'',
      ''bytes8'', ''List8'', ''bytes9'', ''List9'', ''bytes10'', ''List10'', ''bytes11'',
      ''List11'', ''bytes12'', ''List12'', ''bytes13'', ''List13'', ''bytes14'',
      ''List14'', ''bytes15'', ''List15'', ''bytes16'', ''List16'', ''bytes17'',
      ''List17'', ''bytes18'', ''List18'', ''bytes19'', ''List19'', ''bytes20'',
      ''List20'', ''bytes21'', ''List21'', ''bytes22'', ''List22'', ''bytes23'',
      ''List23'', ''bytes24'', ''List24'', ''bytes25'', ''List25'', ''bytes26'',
      ''List26'', ''bytes27'', ''List27'', ''bytes28'', ''List28'', ''bytes29'',
      ''List29'', ''bytes30'', ''List30'', ''bytes31'', ''List31'', ''bytes32'',
      ''List32'']"
  unfolding global_reserved_def
  by (simp add: upt_rec str_nat_digits digit_char_def)

lemmas sanitizer_eval =
  sanitize_name_def scope_of_def new_name_loop_free new_name_loop_taken
  check_global_def check_contract_def check_struct_def check_enum_def check_function_def
  check_event_def check_error_def global_reserved_eval contract_reserved_def
  function_reserved_def struct_reserved_def event_reserved_def error_reserved_def
  enum_reserved_def iskeyword_def kwlist_def chosen_def keys_as_set_def dunder_def
  startswith_def endswith_def NameSanitizer_def clear_global_renames_def Let_def

lemma calls_scope_error:
  "scope_of d = Inl e \<Longrightarrow> calls self (pre @ Sanitize d # post) \<noteq> Inr outs"
proof (induction pre arbitrary: self outs)
  case Nil
  then show ?case by (simp add: sanitize_name_def)
next
  case (Cons r pre)
  then show ?case
    by (cases r) (auto split: sum.splits prod.splits)
qed

text \<open>
  Claim C1. The claim says that a contract member never receives an identifier already
  chosen for a global declaration. The scoped checks compare the candidate with the
  keys of the global table, which are declarations, so the comparison never succeeds:
  after a file-level declaration \<^verbatim>\<open>Foo\<close> was given the identifier \<^verbatim>\<open>Foo\<close>, a
  member \<^verbatim>\<open>Foo\<close> of a contract is given \<^verbatim>\<open>Foo\<close> as well.
\<close>

theorem contract_member_reuses_global_name:
  "calls NameSanitizer
     [Sanitize \<lparr>uid = 1, name = ''Foo'', parent = SourceUnit ''a.sol''\<rparr>,
      Sanitize \<lparr>uid = 2, name = ''Foo'', parent = ContractDefinition 3 ''C'' ''a.sol''\<rparr>]
   = Inr [Some ''Foo'', Some ''Foo'']"
  by (simp add: sanitizer_eval)

text \<open>
  Claim C3, as stated, fails: the global table is emptied after every compilation unit,
  so a file-level declaration that had to give way to a namesake in one unit gets its
  plain name back in the next. Here the second declaration is \<^verbatim>\<open>S_\<close> first and
  \<^verbatim>\<open>S\<close> after the table was cleared.
\<close>

theorem sanitize_across_units_counterexample:
  "calls NameSanitizer
     [Sanitize \<lparr>uid = 1, name = ''S'', parent = SourceUnit ''a.sol''\<rparr>,
      Sanitize \<lparr>uid = 2, name = ''S'', parent = SourceUnit ''b.sol''\<rparr>,
      ClearGlobalRenames,
      Sanitize \<lparr>uid = 2, name = ''S'', parent = SourceUnit ''b.sol''\<rparr>]
   = Inr [Some ''S'', Some ''S_'', None, Some ''S'']"
  by (simp add: sanitizer_eval)

text \<open>
  Claim C3, amended. Take any two calls of one run, for declarations of the same scope,
  and, when that scope is the global one, with no clearing of the global table between
  them. The two calls return the same identifier exactly when they are for the same
  declaration: the same declaration always gets the same identifier, and two different
  declarations never get the same one.
\<close>

theorem sanitize_idempotent_unique:
  assumes "calls NameSanitizer (pre @ Sanitize d # mid @ [Sanitize d']) = Inr outs"
    and "scope_of d = scope_of d'"
    and "scope_of d = Inr Global \<longrightarrow> ClearGlobalRenames \<notin> set mid"
  shows "outs ! length pre = last outs \<longleftrightarrow> d = d'"
proof (cases "scope_of d")
  case (Inl e)
  with assms(1) calls_scope_error show ?thesis by blast
next
  case (Inr sc)
  from calls_same_scope[OF unique_names_init assms(1) Inr] assms(2,3) Inr
  show ?thesis by auto
qed

theorem sanitize_idempotent_unique_witness:
  "calls NameSanitizer
     ([Sanitize \<lparr>uid = 1, name = ''Foo'', parent = SourceUnit ''a.sol''\<rparr>]
      @ Sanitize \<lparr>uid = 2, name = ''Foo'', parent = ContractDefinition 0 ''C'' ''a.sol''\<rparr>
      # [ClearGlobalRenames]
      @ [Sanitize \<lparr>uid = 3, name = ''Foo'', parent = ContractDefinition 0 ''C'' ''a.sol''\<rparr>])
   = Inr [Some ''Foo'', Some ''Foo'', None, Some ''Foo_'']
   \<and> scope_of \<lparr>uid = 2, name = ''Foo'', parent = ContractDefinition 0 ''C'' ''a.sol''\<rparr>
     = scope_of \<lparr>uid = 3, name = ''Foo'', parent = ContractDefinition 0 ''C'' ''a.sol''\<rparr>
   \<and> scope_of \<lparr>uid = 2, name = ''Foo'', parent = ContractDefinition 0 ''C'' ''a.sol''\<rparr>
     \<noteq> Inr Global
   \<and> ([Some ''Foo'', Some ''Foo'', None, Some ''Foo_''] ! length [Sanitize
          \<lparr>uid = 1, name = ''Foo'', parent = SourceUnit ''a.sol''\<rparr>]
        = last [Some ''Foo'', Some ''Foo'', None, Some ''Foo_'']
      \<longleftrightarrow> \<lparr>uid = 2, name = ''Foo'', parent = ContractDefinition 0 ''C'' ''a.sol''\<rparr>
        = \<lparr>uid = 3, name = ''Foo'', parent = ContractDefinition 0 ''C'' ''a.sol''\<rparr>)"
proof -
  have run: "calls NameSanitizer
     ([Sanitize \<lparr>uid = 1, name = ''Foo'', parent = SourceUnit ''a.sol''\<rparr>]
      @ Sanitize \<lparr>uid = 2, name = ''Foo'', parent = ContractDefinition 0 ''C'' ''a.sol''\<rparr>
      # [ClearGlobalRenames]
      @ [Sanitize \<lparr>uid = 3, name = ''Foo'', parent = ContractDefinition 0 ''C'' ''a.sol''\<rparr>])
   = Inr [Some ''Foo'', Some ''Foo'', None, Some ''Foo_'']"
    by (simp add: sanitizer_eval)
  have same: "scope_of \<lparr>uid = 2, name = ''Foo'', parent = ContractDefinition 0 ''C'' ''a.sol''\<rparr>
     = scope_of \<lparr>uid = 3, name = ''Foo'', parent = ContractDefinition 0 ''C'' ''a.sol''\<rparr>"
    by (simp add: scope_of_def)
  have ng: "scope_of \<lparr>uid = 2, name = ''Foo'', parent = ContractDefinition 0 ''C'' ''a.sol''\<rparr>
        = Inr Global \<longrightarrow> ClearGlobalRenames \<notin> set [ClearGlobalRenames]"
    by (simp add: scope_of_def)
  have ng': "scope_of \<lparr>uid = 2, name = ''Foo'', parent = ContractDefinition 0 ''C'' ''a.sol''\<rparr>
     \<noteq> Inr Global"
    by (simp add: scope_of_def)
  from sanitize_idempotent_unique[OF run same ng] run same ng' show ?thesis by blast
qed

text \<open>
  Claim C4, as stated, fails: the reserved table holds \<^verbatim>\<open>List\<close>, the comparison is
  case-sensitive, and a member named \<^verbatim>\<open>list\<close> keeps its name.
\<close>

theorem member_list_counterexample:
  "''List'' \<in> set global_reserved
   \<and> calls NameSanitizer
       [Sanitize \<lparr>uid = 1, name = ''list'', parent = ContractDefinition 0 ''C'' ''a.sol''\<rparr>]
     = Inr [Some ''list'']"
  by (simp add: sanitizer_eval)

text \<open>
  Claim C4, amended. A contract member whose original name is \<^verbatim>\<open>list\<close> is returned
  as \<^verbatim>\<open>list\<close>, unchanged, when no member of that contract holds this identifier
  yet; it is a member whose original name is \<^verbatim>\<open>List\<close>, the reserved word itself,
  that is returned as \<^verbatim>\<open>List_\<close> (when no member holds that one yet).
\<close>

theorem member_list_keeps_name:
  assumes "c = ContractDefinition i cn su"
    and "d = \<lparr>uid = u, name = ''list'', parent = c\<rparr>"
    and "map_of (contract_renames self c) d = None"
    and "''list'' \<notin> chosen (contract_renames self c)"
    and "d' = \<lparr>uid = u', name = ''List'', parent = c\<rparr>"
    and "map_of (contract_renames self c) d' = None"
    and "''List_'' \<notin> chosen (contract_renames self c)"
  shows "(\<exists>self'. sanitize_name self d = Inr (''list'', self'))
       \<and> (\<exists>self'. sanitize_name self d' = Inr (''List_'', self'))"
proof -
  have no_key: "Str nm \<notin> keys_as_set t" for nm t
    by (auto simp: keys_as_set_def)
  have free: "\<not> check self (Contract c) ''list''"
    using assms(4) no_key
    by (simp add: check_contract_def global_reserved_eval contract_reserved_def
          iskeyword_def kwlist_def dunder_def startswith_def)
  have taken: "check self (Contract c) ''List''"
    by (simp add: check_contract_def global_reserved_eval)
  have free': "\<not> check self (Contract c) ''List_''"
    using assms(7) no_key
    by (simp add: check_contract_def global_reserved_eval contract_reserved_def
          iskeyword_def kwlist_def dunder_def startswith_def)
  from free have "new_name_loop self (Contract c) ''list'' = ''list''"
    by (rule new_name_loop_free)
  moreover from taken free' have "new_name_loop self (Contract c) ''List'' = ''List_''"
    by (simp add: new_name_loop_taken new_name_loop_free)
  ultimately show ?thesis
    using assms(1,2,3,5,6) by (simp add: sanitize_name_def scope_of_def Let_def)
qed

theorem member_list_keeps_name_witness:
  "(\<exists>self'. sanitize_name NameSanitizer
       \<lparr>uid = 1, name = ''list'', parent = ContractDefinition 0 ''C'' ''a.sol''\<rparr>
     = Inr (''list'', self'))
   \<and> (\<exists>self'. sanitize_name NameSanitizer
       \<lparr>uid = 2, name = ''List'', parent = ContractDefinition 0 ''C'' ''a.sol''\<rparr>
     = Inr (''List_'', self'))"
  by (rule member_list_keeps_name[where self = NameSanitizer and i = 0 and cn = "''C''"
        and su = "''a.sol''" and u = 1 and u' = 2, OF refl refl _ _ refl])
     (simp_all add: NameSanitizer_def chosen_def)

text \<open>
  The dunder rule in the five scopes whose check has the clause. In a run, every
  identifier returned for a declaration in contract, struct, enum, event or error scope
  is not a dunder-style name (one that starts with two underscores and ends with
  exactly two).
\<close>

theorem class_scopes_reject_dunder:
  assumes "calls NameSanitizer (pre @ Sanitize d # post) = Inr outs"
    and "scope_of d = Inr sc"
    and "sc \<noteq> Global"
    and "\<forall>f. sc \<noteq> Function f"
  shows "\<exists>nm. outs ! length pre = Some nm \<and> \<not> dunder nm"
proof -
  from assms(3,4) have "class_scope sc" by (cases sc) simp_all
  from calls_no_dunder[OF no_dunder_init assms(1,2) this] show ?thesis .
qed

theorem class_scopes_reject_dunder_witness:
  "calls NameSanitizer
     ([] @ Sanitize \<lparr>uid = 2, name = ''__init__'', parent = ContractDefinition 0 ''C'' ''a.sol''\<rparr>
      # [])
   = Inr [Some ''__init___'']
   \<and> scope_of \<lparr>uid = 2, name = ''__init__'', parent = ContractDefinition 0 ''C'' ''a.sol''\<rparr>
     = Inr (Contract (ContractDefinition 0 ''C'' ''a.sol''))
   \<and> Contract (ContractDefinition 0 ''C'' ''a.sol'') \<noteq> Global
   \<and> (\<forall>f. Contract (ContractDefinition 0 ''C'' ''a.sol'') \<noteq> Function f)
   \<and> (\<exists>nm. [Some ''__init___''] ! length ([] :: request list) = Some nm \<and> \<not> dunder nm)"
proof -
  have run: "calls NameSanitizer
     ([] @ Sanitize \<lparr>uid = 2, name = ''__init__'', parent = ContractDefinition 0 ''C'' ''a.sol''\<rparr>
      # [])
   = Inr [Some ''__init___'']"
    by (simp add: sanitizer_eval)
  have sc: "scope_of \<lparr>uid = 2, name = ''__init__'', parent = ContractDefinition 0 ''C'' ''a.sol''\<rparr>
     = Inr (Contract (ContractDefinition 0 ''C'' ''a.sol''))"
    by (simp add: scope_of_def)
  from class_scopes_reject_dunder[OF run sc] run sc show ?thesis by simp
qed

text \<open>
  Claim C5. The claim asks the dunder rule of every non-global scope, the function
  (parameter) scope included. Five of the six scoped checks have the clause;
  \<^verbatim>\<open>_check_function\<close> alone is written without it. So a function parameter
  named \<^verbatim>\<open>__debug__\<close>, a dunder-style name, is returned unchanged, while an event
  parameter of the same name is returned as \<^verbatim>\<open>__debug___\<close>.
\<close>

theorem function_parameter_keeps_dunder:
  "dunder ''__debug__''
   \<and> calls NameSanitizer
       [Sanitize \<lparr>uid = 1, name = ''__debug__'',
                  parent = ParameterList (FunctionDefinition 0)\<rparr>,
        Sanitize \<lparr>uid = 2, name = ''__debug__'',
                  parent = ParameterList (EventDefinition 0)\<rparr>]
     = Inr [Some ''__debug__'', Some ''__debug___'']"
  by (simp add: sanitizer_eval)

section \<open>Properties of the contract template\<close>

lemma revert_site_skipped:
  "pc_map pc = Some (start, stop, - 1, jump) \<Longrightarrow>
     revert_site env cu fqn pc_map (pc, ''REVERT'', sz, arg) index = Inr index"
  by (simp add: revert_site_def)

lemma revert_sites_append:
  "revert_sites env cu fqn pc_map (xs @ ys) index =
     (case revert_sites env cu fqn pc_map xs index of
        Inl e \<Rightarrow> Inl e
      | Inr index' \<Rightarrow> revert_sites env cu fqn pc_map ys index')"
  by (induction xs arbitrary: index) (auto split: sum.splits)

lemmas source_map_eval =
  contract_reverts_def parse_source_map_def decoder_simps

text \<open>
  Claim C9. A \<^verbatim>\<open>REVERT\<close> instruction whose source-map entry has file id \<open>-1\<close>
  is skipped: its step returns the revert index as it was, with no error, and the scan
  of a whole instruction table gives the same result as the scan of the table without
  that instruction. Decoded from text: the last instruction of
  \<^verbatim>\<open>PUSH1 0x00 DUP1 REVERT\<close> with source map \<^verbatim>\<open>0:5:0;;::-1\<close> is such a
  \<^verbatim>\<open>REVERT\<close>, whatever the front end answers.
\<close>

theorem revert_without_source_skipped:
  assumes "pc_map pc = Some (start, stop, - 1, jump)"
  shows "revert_site env cu fqn pc_map (pc, ''REVERT'', sz, arg) index = Inr index
    \<and> revert_sites env cu fqn pc_map (before @ (pc, ''REVERT'', sz, arg) # after) index
      = revert_sites env cu fqn pc_map (before @ after) index
    \<and> contract_reverts env cu fqn ''PUSH1 0x00 DUP1 REVERT'' ''0:5:0;;::-1'' index
      = Inr index"
proof (intro conjI)
  from assms show step: "revert_site env cu fqn pc_map (pc, ''REVERT'', sz, arg) index = Inr index"
    by (rule revert_site_skipped)
  have "revert_sites env cu fqn pc_map ((pc, ''REVERT'', sz, arg) # after) i
        = revert_sites env cu fqn pc_map after i" for i
    using assms by (simp add: revert_site_skipped)
  then show "revert_sites env cu fqn pc_map (before @ (pc, ''REVERT'', sz, arg) # after) index
      = revert_sites env cu fqn pc_map (before @ after) index"
    by (simp add: revert_sites_append split: sum.splits)
  show "contract_reverts env cu fqn ''PUSH1 0x00 DUP1 REVERT'' ''0:5:0;;::-1'' index
      = Inr index"
    by (simp add: source_map_eval revert_site_def)
qed

theorem revert_without_source_skipped_witness:
  "[3 \<mapsto> (0, 5, - 1, None)] (3::int) = Some (0::int, 5::int, - 1::int, None :: string option)
   \<and> revert_site \<lparr>resolve_source_file_id = (\<lambda>_ _. Some ''a.sol''), interval_trees = Map.empty\<rparr>
       ''cu'' ''a.sol:A'' [3 \<mapsto> (0, 5, - 1, None)] (3, ''REVERT'', 1, None) Map.empty
     = Inr Map.empty
   \<and> revert_sites \<lparr>resolve_source_file_id = (\<lambda>_ _. Some ''a.sol''), interval_trees = Map.empty\<rparr>
       ''cu'' ''a.sol:A'' [3 \<mapsto> (0, 5, - 1, None)]
       ([(0, ''PUSH1'', 2, Some 0), (2, ''DUP1'', 1, None)] @ (3, ''REVERT'', 1, None) # [])
       Map.empty
     = Inr Map.empty"
proof -
  have h: "[3 \<mapsto> (0, 5, - 1, None)] (3::int)
      = Some (0::int, 5::int, - 1::int, None :: string option)"
    by simp
  have r: "revert_sites \<lparr>resolve_source_file_id = (\<lambda>_ _. Some ''a.sol''), interval_trees = Map.empty\<rparr>
       ''cu'' ''a.sol:A'' [3 \<mapsto> (0, 5, - 1, None)]
       ([(0, ''PUSH1'', 2, Some 0), (2, ''DUP1'', 1, None)] @ []) Map.empty = Inr Map.empty"
    by (simp add: revert_site_def)
  from revert_without_source_skipped[where pc_map = "[3 \<mapsto> (0, 5, - 1, None)]"
      and pc = 3 and start = 0 and stop = 5 and jump = None
      and env = "\<lparr>resolve_source_file_id = (\<lambda>_ _. Some ''a.sol''), interval_trees = Map.empty\<rparr>"
      and cu = "''cu''" and fqn = "''a.sol:A''" and sz = 1 and arg = None
      and index = Map.empty
      and before = "[(0, ''PUSH1'', 2, Some 0), (2, ''DUP1'', 1, None)]" and after = "[]",
      OF h] h r
  show ?thesis by simp
qed

lemma contract_metadata_Inr:
  assumes "object \<noteq> []" "contract_metadata object fqn index = Inr index'"
  shows "\<exists>metadata. fromhex (trailer object) = Inr metadata \<and> length metadata = 53 \<and>
           index metadata = None \<and> index' = index(metadata \<mapsto> fqn)"
  using assms by (auto simp: contract_metadata_def split: sum.splits if_splits)

lemma contract_metadata_grows:
  "contract_metadata object fqn index = Inr index' \<Longrightarrow> index m \<noteq> None \<Longrightarrow> index' m \<noteq> None"
  by (auto simp: contract_metadata_def split: sum.splits if_splits)

lemma metadata_run_grows:
  "metadata_run cs index = Inr index' \<Longrightarrow> index m \<noteq> None \<Longrightarrow> index' m \<noteq> None"
proof (induction cs arbitrary: index)
  case Nil
  then show ?case by simp
next
  case (Cons c cs)
  obtain object fqn where c: "c = (object, fqn)" by (cases c)
  with Cons.prems(1) obtain i where i: "contract_metadata object fqn index = Inr i"
    and r: "metadata_run cs i = Inr index'"
    by (auto split: sum.splits)
  from contract_metadata_grows[OF i Cons.prems(2)] Cons.IH[OF r] show ?case by simp
qed

lemma metadata_run_records:
  assumes "metadata_run (pre @ (object, fqn) # mid) index = Inr index'" "object \<noteq> []"
  shows "\<exists>metadata. fromhex (trailer object) = Inr metadata \<and> index' metadata \<noteq> None"
  using assms(1)
proof (induction pre arbitrary: index)
  case Nil
  then obtain i where i: "contract_metadata object fqn index = Inr i"
    and r: "metadata_run mid i = Inr index'"
    by (auto split: sum.splits)
  from contract_metadata_Inr[OF assms(2) i] obtain metadata where
    m: "fromhex (trailer object) = Inr metadata" "i metadata \<noteq> None"
    by auto
  with metadata_run_grows[OF r] show ?case by blast
next
  case (Cons c pre)
  obtain o' f' where c: "c = (o', f')" by (cases c)
  with Cons.prems obtain i where
    "metadata_run (pre @ (object, fqn) # mid) i = Inr index'"
    by (auto split: sum.splits)
  with Cons.IH show ?case by blast
qed

text \<open>
  Claim C10. For a contract with non-empty deployed bytecode, the template step
  succeeds only if the last 106 characters decode to 53 bytes that are not yet in the
  metadata index, and then records them; a trailer already in the index ends the run
  with an assertion failure. In a run from the empty index, a contract whose trailer
  decodes to the same bytes as that of a contract generated before it (bytecode
  non-empty) fails with that assertion failure.
\<close>

theorem metadata_trailer_required_unique:
  assumes "object \<noteq> []"
  shows "(\<forall>index'. contract_metadata object fqn index = Inr index' \<longrightarrow>
            (\<exists>metadata. fromhex (trailer object) = Inr metadata \<and> length metadata = 53 \<and>
               index metadata = None \<and> index' = index(metadata \<mapsto> fqn)))
       \<and> (\<forall>metadata. fromhex (trailer object) = Inr metadata \<and> length metadata = 53 \<and>
             index metadata \<noteq> None \<longrightarrow>
            contract_metadata object fqn index = Inl AssertionError)
       \<and> (\<forall>pre object1 fqn1 mid. metadata_run (pre @ (object1, fqn1) # mid) Map.empty = Inr index
             \<and> object1 \<noteq> [] \<and> fromhex (trailer object) = fromhex (trailer object1) \<longrightarrow>
            contract_metadata object fqn index = Inl AssertionError)"
proof (intro conjI allI impI)
  fix index'
  assume "contract_metadata object fqn index = Inr index'"
  with assms show "\<exists>metadata. fromhex (trailer object) = Inr metadata \<and> length metadata = 53 \<and>
               index metadata = None \<and> index' = index(metadata \<mapsto> fqn)"
    by (rule contract_metadata_Inr)
next
  fix metadata
  assume "fromhex (trailer object) = Inr metadata \<and> length metadata = 53 \<and> index metadata \<noteq> None"
  with assms show "contract_metadata object fqn index = Inl AssertionError"
    by (auto simp: contract_metadata_def)
next
  fix pre object1 fqn1 mid
  assume a: "metadata_run (pre @ (object1, fqn1) # mid) Map.empty = Inr index
             \<and> object1 \<noteq> [] \<and> fromhex (trailer object) = fromhex (trailer object1)"
  with metadata_run_records[of pre object1 fqn1 mid Map.empty index] obtain metadata where
    "fromhex (trailer object) = Inr metadata" "index metadata \<noteq> None"
    by auto
  with assms show "contract_metadata object fqn index = Inl AssertionError"
    by (auto simp: contract_metadata_def)
qed

lemma trailer_example:
  "fromhex (trailer ''6080a264697066735822121212121212121212121212121212121212121212121212121212121212121264736f6c63430008110033'') = Inr [96, 128, 162, 100, 105, 112, 102, 115, 88, 34, 18, 18, 18, 18, 18, 18, 18, 18, 18, 18, 18, 18, 18, 18, 18, 18, 18, 18, 18, 18, 18, 18, 18, 18, 18, 18, 18, 18, 18, 18, 18, 18, 100, 115, 111, 108, 99, 67, 0, 8, 17, 0, 51]"
  by (simp add: trailer_def ascii_space_def hex_digit_def digit_value_def)

theorem metadata_trailer_required_unique_witness:
  "''6080a264697066735822121212121212121212121212121212121212121212121212121212121212121264736f6c63430008110033'' \<noteq> []
   \<and> contract_metadata ''6080a264697066735822121212121212121212121212121212121212121212121212121212121212121264736f6c63430008110033'' ''a.sol:A'' Map.empty = Inr [[96, 128, 162, 100, 105, 112, 102, 115, 88, 34, 18, 18, 18, 18, 18, 18, 18, 18, 18, 18, 18, 18, 18, 18, 18, 18, 18, 18, 18, 18, 18, 18, 18, 18, 18, 18, 18, 18, 18, 18, 18, 18, 100, 115, 111, 108, 99, 67, 0, 8, 17, 0, 51] \<mapsto> ''a.sol:A'']
   \<and> metadata_run ([] @ (''6080a264697066735822121212121212121212121212121212121212121212121212121212121212121264736f6c63430008110033'', ''a.sol:A'') # []) Map.empty = Inr [[96, 128, 162, 100, 105, 112, 102, 115, 88, 34, 18, 18, 18, 18, 18, 18, 18, 18, 18, 18, 18, 18, 18, 18, 18, 18, 18, 18, 18, 18, 18, 18, 18, 18, 18, 18, 18, 18, 18, 18, 18, 18, 100, 115, 111, 108, 99, 67, 0, 8, 17, 0, 51] \<mapsto> ''a.sol:A'']
   \<and> contract_metadata ''6080a264697066735822121212121212121212121212121212121212121212121212121212121212121264736f6c63430008110033'' ''b.sol:B'' [[96, 128, 162, 100, 105, 112, 102, 115, 88, 34, 18, 18, 18, 18, 18, 18, 18, 18, 18, 18, 18, 18, 18, 18, 18, 18, 18, 18, 18, 18, 18, 18, 18, 18, 18, 18, 18, 18, 18, 18, 18, 18, 100, 115, 111, 108, 99, 67, 0, 8, 17, 0, 51] \<mapsto> ''a.sol:A''] = Inl AssertionError"
proof -
  have ne: "''6080a264697066735822121212121212121212121212121212121212121212121212121212121212121264736f6c63430008110033'' \<noteq> []" by simp
  have first: "contract_metadata ''6080a264697066735822121212121212121212121212121212121212121212121212121212121212121264736f6c63430008110033'' ''a.sol:A'' Map.empty = Inr [[96, 128, 162, 100, 105, 112, 102, 115, 88, 34, 18, 18, 18, 18, 18, 18, 18, 18, 18, 18, 18, 18, 18, 18, 18, 18, 18, 18, 18, 18, 18, 18, 18, 18, 18, 18, 18, 18, 18, 18, 18, 18, 100, 115, 111, 108, 99, 67, 0, 8, 17, 0, 51] \<mapsto> ''a.sol:A'']"
    by (simp add: contract_metadata_def trailer_example)
  then have run: "metadata_run ([] @ (''6080a264697066735822121212121212121212121212121212121212121212121212121212121212121264736f6c63430008110033'', ''a.sol:A'') # []) Map.empty
      = Inr [[96, 128, 162, 100, 105, 112, 102, 115, 88, 34, 18, 18, 18, 18, 18, 18, 18, 18, 18, 18, 18, 18, 18, 18, 18, 18, 18, 18, 18, 18, 18, 18, 18, 18, 18, 18, 18, 18, 18, 18, 18, 18, 100, 115, 111, 108, 99, 67, 0, 8, 17, 0, 51] \<mapsto> ''a.sol:A'']"
    by simp
  from metadata_trailer_required_unique[OF ne, of "''b.sol:B''" "[[96, 128, 162, 100, 105, 112, 102, 115, 88, 34, 18, 18, 18, 18, 18, 18, 18, 18, 18, 18, 18, 18, 18, 18, 18, 18, 18, 18, 18, 18, 18, 18, 18, 18, 18, 18, 18, 18, 18, 18, 18, 18, 100, 115, 111, 108, 99, 67, 0, 8, 17, 0, 51] \<mapsto> ''a.sol:A'']"] run ne
  have "contract_metadata ''6080a264697066735822121212121212121212121212121212121212121212121212121212121212121264736f6c63430008110033'' ''b.sol:B'' [[96, 128, 162, 100, 105, 112, 102, 115, 88, 34, 18, 18, 18, 18, 18, 18, 18, 18, 18, 18, 18, 18, 18, 18, 18, 18, 18, 18, 18, 18, 18, 18, 18, 18, 18, 18, 18, 18, 18, 18, 18, 18, 100, 115, 111, 108, 99, 67, 0, 8, 17, 0, 51] \<mapsto> ''a.sol:A''] = Inl AssertionError"
    by blast
  with ne first run show ?thesis by blast
qed

section \<open>Properties of the type mapper and of the getters\<close>

lemma array_branches:
  assumes "parse_type_and_import g base_type rt = Inr (elem, g')"
  shows "parse_type_and_import g (Array base_type None) rt = Inr (''List['' @ elem @ '']'', g')"
    and "n \<le> 32 \<Longrightarrow> parse_type_and_import g (Array base_type (Some n)) rt
          = Inr (''List'' @ str_int n @ ''['' @ elem @ '']'', g')"
    and "32 < m \<Longrightarrow> parse_type_and_import g (Array base_type (Some m)) rt
          = Inr (''Annotated[List['' @ elem @ ''], Length('' @ str_int m @ '')]'', g')"
  using assms by simp_all

lemmas str_int_eval = str_int_def str_nat_digits digit_char_def

text \<open>
  Claim C6. Where the element type maps to \<open>elem\<close>, an unbounded array maps to
  \<^verbatim>\<open>List[elem]\<close>, a bounded array of length \<open>n\<close> at most 32 to
  \<^verbatim>\<open>Listn[elem]\<close>, and a bounded array of length \<open>m\<close> above 32 to
  \<^verbatim>\<open>Annotated[List[elem], Length(m)]\<close>, with the generator's state as the element
  mapping left it. So \<^verbatim>\<open>array(uint256, None)\<close> gives \<^verbatim>\<open>List[uint256]\<close>,
  \<^verbatim>\<open>array(bool, 5)\<close> gives \<^verbatim>\<open>List5[bool]\<close> and \<^verbatim>\<open>array(uint256, 40)\<close> gives
  \<^verbatim>\<open>Annotated[List[uint256], Length(40)]\<close>.
\<close>

theorem array_type_mapping:
  assumes "parse_type_and_import g base_type rt = Inr (elem, g')"
    and "n \<le> 32" and "32 < m"
  shows "parse_type_and_import g (Array base_type None) rt = Inr (''List['' @ elem @ '']'', g')
    \<and> parse_type_and_import g (Array base_type (Some n)) rt
        = Inr (''List'' @ str_int n @ ''['' @ elem @ '']'', g')
    \<and> parse_type_and_import g (Array base_type (Some m)) rt
        = Inr (''Annotated[List['' @ elem @ ''], Length('' @ str_int m @ '')]'', g')
    \<and> parse_type_and_import g (Array (UIntType 256) None) rt = Inr (''List[uint256]'', g)
    \<and> parse_type_and_import g (Array Bool (Some 5)) True = Inr (''List5[bool]'', g)
    \<and> parse_type_and_import g (Array (UIntType 256) (Some 40)) rt
        = Inr (''Annotated[List[uint256], Length(40)]'', g)"
proof (intro conjI)
  show "parse_type_and_import g (Array (UIntType 256) None) rt = Inr (''List[uint256]'', g)"
    by (simp add: str_int_eval)
  show "parse_type_and_import g (Array Bool (Some 5)) True = Inr (''List5[bool]'', g)"
    by (simp add: str_int_eval bind_def)
  show "parse_type_and_import g (Array (UIntType 256) (Some 40)) rt
        = Inr (''Annotated[List[uint256], Length(40)]'', g)"
    by (simp add: str_int_eval)
qed (use assms in \<open>simp_all add: array_branches\<close>)

lemma non_excluded_exposed: "non_excluded g ms = map_members g (exposed ms)"
  by (induction ms arbitrary: g) (auto simp: exposed_def split: sum.splits prod.splits)

lemma map_members_strings:
  "map_members g ms = Inr (rets, g') \<Longrightarrow> map snd rets = map snd ms"
  by (induction ms arbitrary: g rets) (auto split: sum.splits prod.splits)

lemma exposed_all: "length (exposed ms) = length ms \<longleftrightarrow> exposed ms = ms"
  unfolding exposed_def
  by (metis filter_id_conv length_filter_less less_irrefl filter_True)

lemma getter_of_struct:
  "generate_getter_for_state_var members g (UserDefinedTypeName (StructType node) ts) =
     bind (get_struct_return_list members g (UserDefinedTypeName (StructType node) ts))
       (\<lambda>(rets, g2). Inr ([], [], rets, returns_str rets, g2))"
  by (simp add: generate_getter_for_state_var_def getter_leaf_def bind_def
        split: sum.splits prod.splits)

theorem array_type_mapping_witness:
  "parse_type_and_import
     \<lparr>sanitizer = NameSanitizer, struct_imports = {}, enum_imports = {},
      contract_imports = {}, current_source_unit = ''a.sol''\<rparr> Address True
   = Inr (''Address'',
       \<lparr>sanitizer = NameSanitizer, struct_imports = {}, enum_imports = {},
        contract_imports = {}, current_source_unit = ''a.sol''\<rparr>)
   \<and> (5::int) \<le> 32 \<and> (32::int) < 40
   \<and> parse_type_and_import
     \<lparr>sanitizer = NameSanitizer, struct_imports = {}, enum_imports = {},
      contract_imports = {}, current_source_unit = ''a.sol''\<rparr> (Array Address None) True
   = Inr (''List[Address]'',
       \<lparr>sanitizer = NameSanitizer, struct_imports = {}, enum_imports = {},
        contract_imports = {}, current_source_unit = ''a.sol''\<rparr>)
   \<and> parse_type_and_import
     \<lparr>sanitizer = NameSanitizer, struct_imports = {}, enum_imports = {},
      contract_imports = {}, current_source_unit = ''a.sol''\<rparr> (Array Address (Some 5)) True
   = Inr (''List5[Address]'',
       \<lparr>sanitizer = NameSanitizer, struct_imports = {}, enum_imports = {},
        contract_imports = {}, current_source_unit = ''a.sol''\<rparr>)
   \<and> parse_type_and_import
     \<lparr>sanitizer = NameSanitizer, struct_imports = {}, enum_imports = {},
      contract_imports = {}, current_source_unit = ''a.sol''\<rparr> (Array Address (Some 40)) True
   = Inr (''Annotated[List[Address], Length(40)]'',
       \<lparr>sanitizer = NameSanitizer, struct_imports = {}, enum_imports = {},
        contract_imports = {}, current_source_unit = ''a.sol''\<rparr>)"
proof -
  have h: "parse_type_and_import
     \<lparr>sanitizer = NameSanitizer, struct_imports = {}, enum_imports = {},
      contract_imports = {}, current_source_unit = ''a.sol''\<rparr> Address True
   = Inr (''Address'',
       \<lparr>sanitizer = NameSanitizer, struct_imports = {}, enum_imports = {},
        contract_imports = {}, current_source_unit = ''a.sol''\<rparr>)"
    by (simp add: bind_def)
  have n: "(5::int) \<le> 32" and m: "(32::int) < 40" by simp_all
  from array_type_mapping[OF h n m] h show ?thesis
    by (simp add: str_int_eval)
qed

lemma bind_Inr: "bind r f = Inr y \<Longrightarrow> \<exists>x. r = Inr x \<and> f x = Inr y"
  by (cases r) (simp_all add: bind_def)

lemma get_struct_return_list_cases:
  assumes "get_struct_return_list members g (UserDefinedTypeName (StructType node) ts)
             = Inr (rets, g')"
  shows "(exposed (members node) = members node \<longrightarrow>
            (\<exists>nm g1. declared_type_name generate_struct_import g1 node = Inr (nm, g')
               \<and> rets = [(nm, ts)]))
       \<and> (exposed (members node) \<noteq> members node \<longrightarrow>
            map_members g (exposed (members node)) = Inr (rets, g'))"
proof -
  from assms have "bind (map_members g (exposed (members node)))
            (\<lambda>(kept, g1).
               if length (members node) = length kept then
                 bind (declared_type_name generate_struct_import g1 node)
                   (\<lambda>(nm, g2). Inr ([(nm, type_string (UserDefinedTypeName (StructType node) ts))], g2))
               else Inr (kept, g1)) = Inr (rets, g')"
    by (simp add: get_struct_return_list_def non_excluded_exposed)
  then obtain kept g1 where k: "map_members g (exposed (members node)) = Inr (kept, g1)"
    and r: "(if length (members node) = length kept then
               bind (declared_type_name generate_struct_import g1 node)
                 (\<lambda>(nm, g2). Inr ([(nm, type_string (UserDefinedTypeName (StructType node) ts))], g2))
             else Inr (kept, g1)) = Inr (rets, g')"
    by (auto dest!: bind_Inr)
  from map_members_strings[OF k] have len: "length kept = length (exposed (members node))"
    by (metis length_map)
  show ?thesis
  proof (cases "exposed (members node) = members node")
    case True
    with len r show ?thesis
      by (auto simp: bind_def split: sum.splits prod.splits)
  next
    case False
    with exposed_all[of "members node"] len have "length (members node) \<noteq> length kept"
      by auto
    with r k False show ?thesis by auto
  qed
qed

text \<open>
  Claim C7, amended. For a public state variable of struct type: when no direct member
  of the struct is an array or a mapping, the getter returns the struct, under its
  generated name; otherwise it returns the mapped types of exactly the members that are
  neither arrays nor mappings, in their order, and the return annotation is
  \<^verbatim>\<open>Tuple[...]\<close> of them when two or more remain, the single type when one
  remains, and \<^verbatim>\<open>None\<close> when none remains.
\<close>

theorem struct_getter_exposure:
  assumes "generate_getter_for_state_var members g (UserDefinedTypeName (StructType node) ts)
             = Inr (params, names, rets, rstr, g')"
  shows "(exposed (members node) = members node \<longrightarrow>
            (\<exists>nm g1. declared_type_name generate_struct_import g1 node = Inr (nm, g')
               \<and> rets = [(nm, ts)] \<and> rstr = nm))
       \<and> (exposed (members node) \<noteq> members node \<longrightarrow>
            map_members g (exposed (members node)) = Inr (rets, g')
            \<and> map snd rets = map snd (exposed (members node))
            \<and> rstr = (if rets = [] then ''None''
                      else if length rets = 1 then fst (hd rets)
                      else ''Tuple['' @ join '', '' (map fst rets) @ '']''))"
proof -
  from assms have l: "get_struct_return_list members g (UserDefinedTypeName (StructType node) ts)
             = Inr (rets, g')" and s: "rstr = returns_str rets"
    by (auto simp: getter_of_struct bind_def split: sum.splits prod.splits)
  from get_struct_return_list_cases[OF l] s
    map_members_strings[of g "exposed (members node)" rets g']
  show ?thesis
    by (auto simp: returns_str_def)
qed

lemmas getter_eval =
  getter_of_struct get_struct_return_list_def bind_def declared_type_name_def
  generate_contract_import_def generate_struct_import_def contract_definition_def
  dotted_name_def get_name_def returns_str_def exposed_def generate_import_def

text \<open>
  Claim C7, as stated, fails where exactly one member of the struct is neither an array
  nor a mapping: the getter of a struct with a \<^verbatim>\<open>uint256\<close> member and a
  \<^verbatim>\<open>uint256[]\<close> member returns \<^verbatim>\<open>uint256\<close>, not a tuple.
\<close>

theorem struct_getter_single_member_counterexample:
  "generate_getter_for_state_var
     (\<lambda>_. [(UIntType 256, ''uint256''), (Array (UIntType 256) None, ''uint256[]'')])
     \<lparr>sanitizer = NameSanitizer, struct_imports = {}, enum_imports = {},
      contract_imports = {}, current_source_unit = ''a.sol''\<rparr>
     (UserDefinedTypeName
        (StructType \<lparr>uid = 1, name = ''S'', parent = ContractDefinition 0 ''C'' ''a.sol''\<rparr>)
        ''struct C.S'')
   = Inr ([], [], [(''uint256'', ''uint256'')], ''uint256'',
          \<lparr>sanitizer = NameSanitizer, struct_imports = {}, enum_imports = {},
           contract_imports = {}, current_source_unit = ''a.sol''\<rparr>)"
  by (simp add: getter_eval str_int_eval)

theorem struct_getter_exposure_witness:
  "(\<exists>g'. generate_getter_for_state_var
            (\<lambda>_. [(UIntType 256, ''uint256''), (Bool, ''bool'')])
            \<lparr>sanitizer = NameSanitizer, struct_imports = {}, enum_imports = {},
             contract_imports = {}, current_source_unit = ''a.sol''\<rparr>
            (UserDefinedTypeName
               (StructType \<lparr>uid = 1, name = ''S'',
                           parent = ContractDefinition 0 ''C'' ''a.sol''\<rparr>)
               ''struct C.S'')
          = Inr ([], [], [(''C.S'', ''struct C.S'')], ''C.S'', g'))
   \<and> exposed [(UIntType 256, ''uint256''), (Bool, ''bool'')]
       = [(UIntType 256, ''uint256''), (Bool, ''bool'')]
   \<and> (\<exists>g'. generate_getter_for_state_var
            (\<lambda>_. [(UIntType 256, ''uint256''), (Array Bool None, ''bool[]''),
                  (Address, ''address'')])
            \<lparr>sanitizer = NameSanitizer, struct_imports = {}, enum_imports = {},
             contract_imports = {}, current_source_unit = ''a.sol''\<rparr>
            (UserDefinedTypeName
               (StructType \<lparr>uid = 1, name = ''S'',
                           parent = ContractDefinition 0 ''C'' ''a.sol''\<rparr>)
               ''struct C.S'')
          = Inr ([], [], [(''uint256'', ''uint256''), (''Address'', ''address'')],
                 ''Tuple[uint256, Address]'', g'))
   \<and> exposed [(UIntType 256, ''uint256''), (Array Bool None, ''bool[]''), (Address, ''address'')]
       = [(UIntType 256, ''uint256''), (Address, ''address'')]"
proof -
  let ?g = "\<lparr>sanitizer = NameSanitizer, struct_imports = {}, enum_imports = {},
             contract_imports = {}, current_source_unit = ''a.sol''\<rparr>"
  let ?tn = "UserDefinedTypeName
               (StructType \<lparr>uid = 1, name = ''S'',
                           parent = ContractDefinition 0 ''C'' ''a.sol''\<rparr>)
               ''struct C.S''"
  let ?m1 = "\<lambda>_ :: declaration_abc. [(UIntType 256, ''uint256''), (Bool, ''bool'')]"
  let ?m2 = "\<lambda>_ :: declaration_abc. [(UIntType 256, ''uint256''), (Array Bool None, ''bool[]''),
                  (Address, ''address'')]"
  have "\<exists>g'. generate_getter_for_state_var ?m1 ?g ?tn
          = Inr ([], [], [(''C.S'', ''struct C.S'')], ''C.S'', g')"
    by (simp add: getter_eval str_int_eval sanitizer_eval)
  then obtain g1 where r1: "generate_getter_for_state_var ?m1 ?g ?tn
          = Inr ([], [], [(''C.S'', ''struct C.S'')], ''C.S'', g1)" ..
  have e1: "exposed [(UIntType 256, ''uint256''), (Bool, ''bool'')]
       = [(UIntType 256, ''uint256''), (Bool, ''bool'')]"
    by (simp add: exposed_def)
  have "\<exists>g'. generate_getter_for_state_var ?m2 ?g ?tn
          = Inr ([], [], [(''uint256'', ''uint256''), (''Address'', ''address'')],
                 ''Tuple[uint256, Address]'', g')"
    by (simp add: getter_eval str_int_eval)
  then obtain g2 where r2: "generate_getter_for_state_var ?m2 ?g ?tn
          = Inr ([], [], [(''uint256'', ''uint256''), (''Address'', ''address'')],
                 ''Tuple[uint256, Address]'', g2)" ..
  have e2: "exposed [(UIntType 256, ''uint256''), (Array Bool None, ''bool[]''), (Address, ''address'')]
       = [(UIntType 256, ''uint256''), (Address, ''address'')]"
    by (simp add: exposed_def)
  from struct_getter_exposure[OF r1] struct_getter_exposure[OF r2] r1 r2 e1 e2
  show ?thesis by blast
qed

section \<open>Properties of the unit scheduler\<close>

lemma frontier_empty: "frontier b [] st = Some (Inr st)"
  by (subst frontier.simps) simp

lemma schedule_empty: "nodes (graph st) = [] \<Longrightarrow> schedule b rt st = Some (Inr st)"
  by (subst schedule.simps) simp

lemmas scheduler_eval =
  generate_types_def frontier_empty schedule_empty cycle_phase_def in_degree_def
  is_closed_cycle_def in_edges_def nbunch_iter_def remove_nodes_from_def generate_at_def
  paths_to_source_unit_names_def Let_def

text \<open>
  Claim C8. Three units \<^verbatim>\<open>A\<close>, \<^verbatim>\<open>B\<close>, \<^verbatim>\<open>C\<close>, each at its own path, import one
  another in a cycle. No unit has in-degree zero, so the frontier is empty; the cycle is
  closed, all three units are generated in one group, the run ends, and the warning has
  the single entry \<open>{A, B, C}\<close>. The members of the group are taken in the order the
  frozenset yields them: when that order is \<^verbatim>\<open>B\<close>, \<^verbatim>\<open>A\<close>, \<^verbatim>\<open>C\<close> the units are
  generated in that order, which is not the sorted one the claim states; only a run
  whose frozenset happens to yield \<^verbatim>\<open>A\<close>, \<^verbatim>\<open>B\<close>, \<^verbatim>\<open>C\<close> generates them sorted.
\<close>

theorem cycle_members_in_hash_order:
  "generate_types
     \<lparr>source_units_info = [(''A'', ''/A''), (''B'', ''/B''), (''C'', ''/C'')],
      source_units = [(''/A'', ''A''), (''/B'', ''B''), (''/C'', ''C'')]\<rparr>
     \<lparr>simple_cycles = (\<lambda>g. if nodes g = [] then [] else [[''A'', ''B'', ''C'']]),
      iterate = (\<lambda>members. [''B'', ''A'', ''C'']),
      sorted_cycles = (\<lambda>found. found)\<rparr>
     \<lparr>nodes = [''A'', ''B'', ''C''],
      edges = [(''A'', ''B''), (''B'', ''C''), (''C'', ''A'')]\<rparr>
   = Some (Inr ([''B'', ''A'', ''C''], Some [{''A'', ''B'', ''C''}]))
   \<and> generate_types
     \<lparr>source_units_info = [(''A'', ''/A''), (''B'', ''/B''), (''C'', ''/C'')],
      source_units = [(''/A'', ''A''), (''/B'', ''B''), (''/C'', ''C'')]\<rparr>
     \<lparr>simple_cycles = (\<lambda>g. if nodes g = [] then [] else [[''A'', ''B'', ''C'']]),
      iterate = (\<lambda>members. [''A'', ''B'', ''C'']),
      sorted_cycles = (\<lambda>found. found)\<rparr>
     \<lparr>nodes = [''A'', ''B'', ''C''],
      edges = [(''A'', ''B''), (''B'', ''C''), (''C'', ''A'')]\<rparr>
   = Some (Inr ([''A'', ''B'', ''C''], Some [{''A'', ''B'', ''C''}]))"
proof
  show "generate_types
     \<lparr>source_units_info = [(''A'', ''/A''), (''B'', ''/B''), (''C'', ''/C'')],
      source_units = [(''/A'', ''A''), (''/B'', ''B''), (''/C'', ''C'')]\<rparr>
     \<lparr>simple_cycles = (\<lambda>g. if nodes g = [] then [] else [[''A'', ''B'', ''C'']]),
      iterate = (\<lambda>members. [''B'', ''A'', ''C'']),
      sorted_cycles = (\<lambda>found. found)\<rparr>
     \<lparr>nodes = [''A'', ''B'', ''C''],
      edges = [(''A'', ''B''), (''B'', ''C''), (''C'', ''A'')]\<rparr>
   = Some (Inr ([''B'', ''A'', ''C''], Some [{''A'', ''B'', ''C''}]))"
    by (subst generate_types_def, subst schedule.simps) (simp add: scheduler_eval)
  show "generate_types
     \<lparr>source_units_info = [(''A'', ''/A''), (''B'', ''/B''), (''C'', ''/C'')],
      source_units = [(''/A'', ''A''), (''/B'', ''B''), (''/C'', ''C'')]\<rparr>
     \<lparr>simple_cycles = (\<lambda>g. if nodes g = [] then [] else [[''A'', ''B'', ''C'']]),
      iterate = (\<lambda>members. [''A'', ''B'', ''C'']),
      sorted_cycles = (\<lambda>found. found)\<rparr>
     \<lparr>nodes = [''A'', ''B'', ''C''],
      edges = [(''A'', ''B''), (''B'', ''C''), (''C'', ''A'')]\<rparr>
   = Some (Inr ([''A'', ''B'', ''C''], Some [{''A'', ''B'', ''C''}]))"
    by (subst generate_types_def, subst schedule.simps) (simp add: scheduler_eval)
qed


end
